theory Spec2Isabelle
  imports Main "HOL-Library.Sublist" "HOL-Library.Word" "HOL-Library.Signed_Division"
begin

section \<open>The HMP command adapter (monitor/hmp-cmds.c)\<close>

text \<open>
  A shallow embedding of the command shims and renderers of \<^verbatim>\<open>monitor/hmp-cmds.c\<close>.
  A singly-linked QAPI list is a HOL list (\<open>[]\<close> is the NULL pointer, a pointer to a node
  is the suffix that starts at that node). A nullable \<^verbatim>\<open>char *\<close> argument is a
  \<open>string option\<close>. The text sink records every write in order.
\<close>

subsection \<open>Text sink, error descriptors, number formatting\<close>

abbreviation nl :: string where
  "nl \<equiv> [CHR 0x0A]"

abbreviation tab :: string where
  "tab \<equiv> [CHR 0x09]"

datatype Error = Error (error_get_pretty: string)

text \<open>
  The monitor session: \<open>out\<close> holds the strings written to the text sink, one entry per
  \<^verbatim>\<open>monitor_printf\<close>/\<^verbatim>\<open>monitor_puts\<close> call, oldest first; \<open>freed\<close> logs the error
  descriptors released so far; \<open>mon_cpu_index\<close> is what \<^verbatim>\<open>monitor_get_cpu_index\<close>
  answers.
\<close>

record Monitor =
  out :: "string list"
  freed :: "Error list"
  mon_cpu_index :: int

definition monitor_printf :: "string \<Rightarrow> Monitor \<Rightarrow> Monitor" where
  "monitor_printf s mon = mon\<lparr>out := out mon @ [s]\<rparr>"

definition monitor_puts :: "string \<Rightarrow> Monitor \<Rightarrow> Monitor" where
  "monitor_puts s mon = mon\<lparr>out := out mon @ [s]\<rparr>"

definition monitor_text :: "Monitor \<Rightarrow> string" where
  "monitor_text mon = concat (out mon)"

definition error_free :: "Error option \<Rightarrow> Monitor \<Rightarrow> Monitor" where
  "error_free err mon = (case err of None \<Rightarrow> mon | Some e \<Rightarrow> mon\<lparr>freed := freed mon @ [e]\<rparr>)"

definition digit_char :: "nat \<Rightarrow> char" where
  "digit_char d = ''0123456789abcdef'' ! d"

text \<open>\<^verbatim>\<open>%d\<close> and \<^verbatim>\<open>%PRId64\<close>: the decimal digits of the value, a minus sign first when negative.\<close>

fun dec_nat :: "nat \<Rightarrow> string" where
  "dec_nat n = (if n < 10 then [digit_char n] else dec_nat (n div 10) @ [digit_char (n mod 10)])"

declare dec_nat.simps [simp del]

definition dec :: "int \<Rightarrow> string" where
  "dec i = (if i < 0 then ''-'' @ dec_nat (nat (- i)) else dec_nat (nat i))"

text \<open>\<^verbatim>\<open>%x\<close>: lower-case hexadecimal digits; \<^verbatim>\<open>%016x\<close>: the same, zero-padded on the left to 16.\<close>

fun hex_nat :: "nat \<Rightarrow> string" where
  "hex_nat n = (if n < 16 then [digit_char n] else hex_nat (n div 16) @ [digit_char (n mod 16)])"

declare hex_nat.simps [simp del]

definition hex016 :: "nat \<Rightarrow> string" where
  "hex016 n = replicate (16 - length (hex_nat n)) (CHR ''0'') @ hex_nat n"

text \<open>
  \<^verbatim>\<open>%d\<close> and \<^verbatim>\<open>%PRId32\<close> read a 32-bit argument as signed (a narrower field is promoted
  to \<^verbatim>\<open>int\<close> when it is passed); \<^verbatim>\<open>%PRId64\<close> reads a 64-bit argument as signed. A field
  that is printed this way is a word of the width the conversion reads, so an unsigned
  32-bit field of 2^31 or more prints negative, as it does in C.
\<close>

definition fmt_d :: "32 word \<Rightarrow> string" where
  "fmt_d x = dec (sint x)"

definition fmt_PRId64 :: "64 word \<Rightarrow> string" where
  "fmt_PRId64 x = dec (sint x)"

text \<open>
  An integer of the argument map is an \<^verbatim>\<open>int64_t\<close>; stored in a C \<^verbatim>\<open>int\<close> it keeps its low
  32 bits, read as signed.
\<close>

definition int32_of :: "int \<Rightarrow> int" where
  "int32_of i = (i + 2147483648) mod 4294967296 - 2147483648"

text \<open>
  A call of a function that is outside this file either returns a value or does not
  return, because it reads through a NULL pointer or aborts.
\<close>

datatype 'a call = Returns 'a | Faults

subsection \<open>Error relay\<close>

text \<open>
  Modelled from the spec: \<^verbatim>\<open>error_reportf_err\<close> is not part of this file. Section 4.1
  has it emit exactly one line to the text sink, the prefix followed by the error's pretty
  description, and release the descriptor.
\<close>

definition error_reportf_err :: "Error \<Rightarrow> string \<Rightarrow> Monitor \<Rightarrow> Monitor" where
  "error_reportf_err err pfx mon =
     error_free (Some err) (monitor_printf (pfx @ error_get_pretty err @ nl) mon)"

definition hmp_handle_error :: "Monitor \<Rightarrow> Error option \<Rightarrow> bool \<times> Monitor" where
  "hmp_handle_error mon err =
     (case err of
        Some e \<Rightarrow> (True, error_reportf_err e ''Error: '' mon)
      | None \<Rightarrow> (False, mon))"

subsection \<open>Comma splitter\<close>

text \<open>
  \<^verbatim>\<open>g_strsplit(string, ",", -1)\<close> is GLib's: it cuts the string at every comma, keeps empty
  fields, and returns the empty vector for the empty string. \<open>g_strsplit_loop tok rest\<close>
  scans \<open>rest\<close> with \<open>tok\<close> the field read so far.
\<close>

fun g_strsplit_loop :: "string \<Rightarrow> string \<Rightarrow> string list" where
  "g_strsplit_loop tok [] = [tok]"
| "g_strsplit_loop tok (c # cs) =
     (if c = CHR '','' then tok # g_strsplit_loop [] cs else g_strsplit_loop (tok @ [c]) cs)"

definition g_strsplit_comma :: "string \<Rightarrow> string list" where
  "g_strsplit_comma s = (if s = [] then [] else g_strsplit_loop [] s)"

text \<open>The \<^verbatim>\<open>for\<close> loop of \<^verbatim>\<open>hmp_split_at_comma\<close>: \<^verbatim>\<open>QAPI_LIST_APPEND\<close> of each field to \<open>res\<close>.\<close>

fun split_append_loop :: "string list \<Rightarrow> string list \<Rightarrow> string list" where
  "split_append_loop [] res = res"
| "split_append_loop (f # fs) res = split_append_loop fs (res @ [f])"

definition hmp_split_at_comma :: "string option \<Rightarrow> string list" where
  "hmp_split_at_comma str =
     split_append_loop (g_strsplit_comma (case str of None \<Rightarrow> [] | Some s \<Rightarrow> s)) []"

text \<open>Comma-join of a sequence of fields, as the spec's \<open>join(xs, ",")\<close>.\<close>

fun comma_join :: "string list \<Rightarrow> string" where
  "comma_join [] = []"
| "comma_join [x] = x"
| "comma_join (x # y # ys) = x @ '','' @ comma_join (y # ys)"

subsection \<open>Lookup tables and helpers that live outside this file\<close>

text \<open>
  Modelled from the spec: the enums are declared in generated QAPI headers that are not
  part of this file. Each enum keeps the members that the source or the spec names and
  one constructor for every other member. A stats provider is its enum number;
  \<open>STATS_PROVIDER__MAX\<close> is the count of providers.
\<close>

datatype RunState = RUN_STATE_PAUSED | RUN_STATE_GUEST_PANICKED | RUN_STATE_other nat

datatype StatsTarget = STATS_TARGET_VM | STATS_TARGET_VCPU | STATS_TARGET_other nat

datatype StatsUnit = STATS_UNIT_SECONDS | STATS_UNIT_BYTES | STATS_UNIT_other nat

datatype StatsType = STATS_TYPE_LINEAR_HISTOGRAM | STATS_TYPE_other nat

datatype TpmType = TPM_TYPE_PASSTHROUGH | TPM_TYPE_EMULATOR | TPM_TYPE__MAX

type_synonym TpmModel = nat

type_synonym StatsProvider = nat

text \<open>
  Modelled from the spec: the enum name tables (\<^verbatim>\<open>RunState_str\<close> and the like), the
  prefix tables of \<^verbatim>\<open>qemu/cutils.h\<close>, the number of providers and the two functions that
  resolve a vCPU are outside this file. They are parameters of the model, taken in an
  environment record; section 1 of the spec treats the name tables as opaque lookups.
  \<^verbatim>\<open>qemu_get_cpu\<close> answers a pointer to the vCPU with the given index, NULL (\<open>None\<close>) when
  there is none. \<^verbatim>\<open>object_get_canonical_path\<close> is given that pointer unchecked; nothing in
  this file says what it does with NULL, so its answer is a \<open>call\<close>: the path, or no return.
\<close>

type_synonym CPUState = nat

record env =
  RunState_str :: "RunState \<Rightarrow> string"
  StatsType_str :: "StatsType \<Rightarrow> string"
  StatsUnit_str :: "StatsUnit \<Rightarrow> string"
  StatsProvider_str :: "StatsProvider \<Rightarrow> string"
  TpmModel_str :: "TpmModel \<Rightarrow> string"
  TpmType_str :: "TpmType \<Rightarrow> string"
  si_prefix :: "int \<Rightarrow> string"
  iec_binary_prefix :: "int \<Rightarrow> string"
  STATS_PROVIDER__MAX :: StatsProvider
  qemu_get_cpu :: "int \<Rightarrow> CPUState option"
  object_get_canonical_path :: "CPUState option \<Rightarrow> string call"

subsection \<open>info status\<close>

record StatusInfo =
  running :: bool
  singlestep :: bool
  status :: RunState

text \<open>\<open>info\<close> is the record that \<^verbatim>\<open>qmp_query_status(NULL)\<close> returned.\<close>

definition hmp_info_status :: "env \<Rightarrow> StatusInfo \<Rightarrow> Monitor \<Rightarrow> Monitor" where
  "hmp_info_status e info mon =
     (let mon1 = monitor_printf
                   (''VM status: '' @ (if running info then ''running'' else ''paused'') @
                    (if singlestep info then '' (single step mode)'' else [])) mon;
          mon2 = (if \<not> running info \<and> status info \<noteq> RUN_STATE_PAUSED
                  then monitor_printf ('' ('' @ RunState_str e (status info) @ '')'') mon1
                  else mon1)
      in monitor_printf nl mon2)"

subsection \<open>Virtio list dumpers\<close>

record VhostDeviceProtocols =
  protocols :: "string list"
  has_unknown_protocols :: bool
  unknown_protocols :: "64 word"

record VirtioDeviceStatus =
  statuses :: "string list"
  has_unknown_statuses :: bool
  unknown_statuses :: "32 word"

record VirtioDeviceFeatures =
  transports :: "string list"
  dev_features :: "string list"
  has_unknown_dev_features :: bool
  unknown_dev_features :: "64 word"

text \<open>
  The \<^verbatim>\<open>while\<close> loop that the three dumpers repeat word for word (twice in
  \<^verbatim>\<open>hmp_virtio_dump_features\<close>): print the element, step to the next node, print
  \<^verbatim>\<open>",\n"\<close> when that node is not NULL.
\<close>

fun virtio_dump_loop :: "string list \<Rightarrow> Monitor \<Rightarrow> Monitor" where
  "virtio_dump_loop [] mon = mon"
| "virtio_dump_loop (v # nxt) mon =
     (let mon1 = monitor_printf (tab @ v) mon;
          mon2 = (if nxt \<noteq> [] then monitor_printf ('','' @ nl) mon1 else mon1)
      in virtio_dump_loop nxt mon2)"

definition hmp_virtio_dump_protocols :: "VhostDeviceProtocols \<Rightarrow> Monitor \<Rightarrow> Monitor" where
  "hmp_virtio_dump_protocols pcol mon =
     (let mon1 = virtio_dump_loop (protocols pcol) mon;
          mon2 = monitor_printf nl mon1
      in if has_unknown_protocols pcol
         then monitor_printf
                (''  unknown-protocols(0x'' @ hex016 (unat (unknown_protocols pcol)) @ '')'' @ nl) mon2
         else mon2)"

definition hmp_virtio_dump_status :: "VirtioDeviceStatus \<Rightarrow> Monitor \<Rightarrow> Monitor" where
  "hmp_virtio_dump_status st mon =
     (let mon1 = virtio_dump_loop (statuses st) mon;
          mon2 = monitor_printf nl mon1
      in if has_unknown_statuses st
         then monitor_printf
                (''  unknown-statuses(0x'' @ hex016 (unat (unknown_statuses st)) @ '')'' @ nl) mon2
         else mon2)"

definition hmp_virtio_dump_features :: "VirtioDeviceFeatures \<Rightarrow> Monitor \<Rightarrow> Monitor" where
  "hmp_virtio_dump_features features mon =
     (let mon1 = virtio_dump_loop (transports features) mon;
          mon2 = monitor_printf nl mon1;
          mon3 = (if dev_features features \<noteq> []
                  then monitor_printf nl (virtio_dump_loop (dev_features features) mon2)
                  else mon2)
      in if has_unknown_dev_features features
         then monitor_printf
                (''  unknown-features(0x'' @ hex016 (unat (unknown_dev_features features)) @ '')'' @ nl)
                mon3
         else mon3)"

text \<open>
  What a list dump is meant to write: the elements, each after a tab, with the separator
  between neighbours.
\<close>

fun separated :: "string \<Rightarrow> string list \<Rightarrow> string list" where
  "separated sep [] = []"
| "separated sep [x] = [x]"
| "separated sep (x # y # ys) = x # sep # separated sep (y # ys)"

definition list_writes :: "string list \<Rightarrow> string list" where
  "list_writes xs = separated ('','' @ nl) (map (\<lambda>x. tab @ x) xs)"

definition unknown_line :: "string \<Rightarrow> bool \<Rightarrow> nat \<Rightarrow> string list" where
  "unknown_line kind has bits =
     (if has then [''  unknown-'' @ kind @ ''(0x'' @ hex016 bits @ '')'' @ nl] else [])"

subsection \<open>Stats schema renderer\<close>

text \<open>
  The records of the generated QAPI types, with the fields this file reads. \<open>base\<close> and
  \<open>exponent\<close> are signed C integers narrower than \<^verbatim>\<open>int\<close>, compared and printed after
  promotion to \<^verbatim>\<open>int\<close>; no arithmetic is done on them beyond comparisons and the
  remainder test, so they are \<open>int\<close>. \<^verbatim>\<open>%\<close> is C's truncating remainder, \<open>smod\<close>.
  \<open>bucket_size\<close> is an unsigned 32-bit field that is printed with \<^verbatim>\<open>%d\<close>.
\<close>

record StatsSchemaValue =
  sv_name :: string
  sv_type :: StatsType
  has_unit :: bool
  sv_unit :: StatsUnit
  base :: int
  exponent :: int
  has_bucket_size :: bool
  bucket_size :: "32 word"

record StatsSchema =
  sch_provider :: StatsProvider
  sch_target :: StatsTarget
  sch_stats :: "StatsSchemaValue list"

text \<open>
  \<^verbatim>\<open>StatsValue\<close> is a QAPI alternate tagged by a \<^verbatim>\<open>QType\<close>: a 64-bit scalar, a boolean or a
  list of 64-bit numbers; every other tag prints nothing. The numbers are unsigned and are
  printed with \<^verbatim>\<open>PRId64\<close>, that is, read as signed.
\<close>

datatype StatsValue =
  QTYPE_QNUM "64 word" | QTYPE_QBOOL bool | QTYPE_QLIST "64 word list" | QTYPE_other

record Stats =
  st_name :: string
  st_value :: StatsValue

record StatsResult =
  sr_provider :: StatsProvider
  sr_stats :: "Stats list"

text \<open>
  \<^verbatim>\<open>print_stats_schema_value\<close>, in the order of its statements. \<open>unit_letter\<close> is the local
  \<^verbatim>\<open>unit\<close> after the first \<^verbatim>\<open>if\<close> (\<open>None\<close> for NULL); \<open>si_branch\<close> and \<open>iec_branch\<close> are the
  conditions of the first two arms of the \<^verbatim>\<open>if\<close> chain that follows.
\<close>

definition unit_letter :: "StatsSchemaValue \<Rightarrow> string option" where
  "unit_letter v =
     (if has_unit v
      then (if sv_unit v = STATS_UNIT_SECONDS then Some ''s''
            else if sv_unit v = STATS_UNIT_BYTES then Some ''B'' else None)
      else None)"

definition si_branch :: "StatsSchemaValue \<Rightarrow> bool" where
  "si_branch v \<longleftrightarrow>
     unit_letter v \<noteq> None \<and> base v = 10 \<and> exponent v \<ge> - 18 \<and> exponent v \<le> 18 \<and>
     exponent v smod 3 = 0"

definition iec_branch :: "StatsSchemaValue \<Rightarrow> bool" where
  "iec_branch v \<longleftrightarrow>
     unit_letter v \<noteq> None \<and> base v = 2 \<and> exponent v \<ge> 0 \<and> exponent v \<le> 60 \<and>
     exponent v smod 10 = 0"

definition print_stats_schema_value :: "env \<Rightarrow> StatsSchemaValue \<Rightarrow> Monitor \<Rightarrow> Monitor" where
  "print_stats_schema_value e v mon =
     (let mon1 = monitor_printf
                   (''    '' @ sv_name v @ '' ('' @ StatsType_str e (sv_type v) @
                    (if has_unit v \<or> exponent v \<noteq> 0 then '', '' else [])) mon;
          (mon2, unit1) =
            (if si_branch v
             then (monitor_puts (si_prefix e (exponent v)) mon1, unit_letter v)
             else if iec_branch v
             then (monitor_puts (iec_binary_prefix e (exponent v)) mon1, unit_letter v)
             else if exponent v \<noteq> 0
             then (monitor_printf
                     (''* '' @ dec (base v) @ ''^'' @ dec (exponent v) @
                      (if has_unit v then '' '' else [])) mon1, None)
             else (mon1, unit_letter v));
          mon3 = (if has_unit v
                  then monitor_puts
                         (case unit1 of Some u \<Rightarrow> u | None \<Rightarrow> StatsUnit_str e (sv_unit v)) mon2
                  else mon2);
          mon4 = (if sv_type v = STATS_TYPE_LINEAR_HISTOGRAM \<and> has_bucket_size v
                  then monitor_printf ('', bucket size='' @ fmt_d (bucket_size v)) mon3
                  else mon3)
      in monitor_printf '')'' mon4)"

fun find_schema_value_list ::
  "StatsSchema list \<Rightarrow> StatsProvider \<Rightarrow> StatsTarget \<Rightarrow> StatsSchemaValue list" where
  "find_schema_value_list [] provider target = []"
| "find_schema_value_list (node # nxt) provider target =
     (if sch_provider node = provider \<and> sch_target node = target then sch_stats node
      else find_schema_value_list nxt provider target)"

text \<open>
  The \<^verbatim>\<open>for\<close> loop over a list value: 1-based index, each number followed by a space. The
  index is a C \<^verbatim>\<open>int\<close>; it is counted in \<open>int\<close>, a list being far shorter than 2^31.
\<close>

fun print_uint64List :: "64 word list \<Rightarrow> int \<Rightarrow> Monitor \<Rightarrow> Monitor" where
  "print_uint64List [] i mon = mon"
| "print_uint64List (x # nxt) i mon =
     print_uint64List nxt (i + 1)
       (monitor_printf (''['' @ dec i @ '']='' @ dec (sint x) @ '' '') mon)"

text \<open>The \<^verbatim>\<open>if\<close> chain on the value's tag that ends the body of the stats loop.\<close>

definition print_stats_value :: "StatsValue \<Rightarrow> Monitor \<Rightarrow> Monitor" where
  "print_stats_value sv mon =
     (case sv of
        QTYPE_QNUM x \<Rightarrow> monitor_printf ('': '' @ dec (sint x) @ nl) mon
      | QTYPE_QBOOL b \<Rightarrow> monitor_printf ('': '' @ (if b then ''yes'' else ''no'') @ nl) mon
      | QTYPE_QLIST l \<Rightarrow> monitor_printf nl (print_uint64List l 1 (monitor_printf '': '' mon))
      | QTYPE_other \<Rightarrow> mon)"

text \<open>
  The inner \<^verbatim>\<open>while\<close> loop, entered with the schema cursor at a node (value \<open>v\<close>, rest
  \<open>nxt\<close>): it steps the cursor forward until the node's name is the stat's name and answers
  that node, or \<open>None\<close> when the list ends first.
\<close>

fun find_schema_entry ::
  "string \<Rightarrow> StatsSchemaValue \<Rightarrow> StatsSchemaValue list \<Rightarrow>
   (StatsSchemaValue \<times> StatsSchemaValue list) option" where
  "find_schema_entry nm v [] = (if sv_name v = nm then Some (v, []) else None)"
| "find_schema_entry nm v (v' # nxt) =
     (if sv_name v = nm then Some (v, v' # nxt) else find_schema_entry nm v' nxt)"

text \<open>
  How a call of \<^verbatim>\<open>print_stats_results\<close> ends: the loop ran over all stats; the schema
  list was missing; a stat found no schema entry; or the loop read
  \<^verbatim>\<open>schema_value_list->value\<close> with the cursor at NULL, which the source does when stats
  remain after the cursor has stepped past the last schema entry.
\<close>

datatype render_exit = Rendered_all | No_schema_list | No_schema_entry | Null_deref

text \<open>
  The outer \<^verbatim>\<open>for\<close> loop. It answers the monitor, the exit, and the trace of the schema
  cursor: for each stat that was rendered, in order, the node the cursor pointed to when
  \<^verbatim>\<open>print_stats_schema_value\<close> was called (a node is the suffix of the schema list that
  starts there).
\<close>

fun stats_loop ::
  "env \<Rightarrow> Stats list \<Rightarrow> StatsSchemaValue list \<Rightarrow> Monitor \<Rightarrow>
   Monitor \<times> StatsSchemaValue list list \<times> render_exit" where
  "stats_loop e [] schema_value_list mon = (mon, [], Rendered_all)"
| "stats_loop e (stats # nxt_stats) [] mon = (mon, [], Null_deref)"
| "stats_loop e (stats # nxt_stats) (v # nxt) mon =
     (case find_schema_entry (st_name stats) v nxt of
        None \<Rightarrow>
          (monitor_printf (''failed to find schema entry for '' @ st_name stats @ nl) mon, [],
           No_schema_entry)
      | Some (schema_value, nxt') \<Rightarrow>
          (let mon1 = print_stats_schema_value e schema_value mon;
               mon2 = print_stats_value (st_value stats) mon1;
               (mon3, cursors, ex) = stats_loop e nxt_stats nxt' mon2
           in (mon3, (schema_value # nxt') # cursors, ex)))"

definition print_stats_results ::
  "env \<Rightarrow> StatsTarget \<Rightarrow> bool \<Rightarrow> StatsResult \<Rightarrow> StatsSchema list \<Rightarrow> Monitor \<Rightarrow>
   Monitor \<times> StatsSchemaValue list list \<times> render_exit" where
  "print_stats_results e target show_provider result schema mon =
     (let schema_value_list = find_schema_value_list schema (sr_provider result) target
      in if schema_value_list = []
         then (monitor_printf
                 (''failed to find schema list for '' @
                  StatsProvider_str e (sr_provider result) @ nl) mon, [], No_schema_list)
         else
           (let mon1 = (if show_provider
                        then monitor_printf
                               (''provider: '' @ StatsProvider_str e (sr_provider result) @ nl) mon
                        else mon)
            in stats_loop e (sr_stats result) schema_value_list mon1))"

text \<open>What a function on the monitor writes, started on an empty text sink.\<close>

definition writes_of :: "(Monitor \<Rightarrow> Monitor) \<Rightarrow> string list" where
  "writes_of f = out (f \<lparr>out = [], freed = [], mon_cpu_index = 0\<rparr>)"

subsection \<open>Stats filter builder\<close>

record StatsRequest =
  rq_provider :: StatsProvider
  has_names :: bool
  names :: "string list"

record StatsFilter =
  target :: StatsTarget
  has_vcpus :: bool
  vcpus :: "string list"
  has_providers :: bool
  providers :: "StatsRequest list"

text \<open>The body of the \<^verbatim>\<open>for\<close> loop over the providers: the request of one kept provider.\<close>

definition stats_request :: "string option \<Rightarrow> StatsProvider \<Rightarrow> StatsRequest" where
  "stats_request names_arg provider_idx =
     (let request = \<lparr>rq_provider = provider_idx, has_names = False, names = []\<rparr>
      in if names_arg \<noteq> None \<and> names_arg \<noteq> Some ''*''
         then request\<lparr>has_names := True, names := hmp_split_at_comma names_arg\<rparr>
         else request)"

text \<open>
  \<^verbatim>\<open>stats_filter\<close>. The only call in it that may not return is
  \<^verbatim>\<open>object_get_canonical_path\<close>, made for the VCPU target alone; the builder then does
  not return either.
\<close>

definition stats_filter ::
  "env \<Rightarrow> StatsTarget \<Rightarrow> string option \<Rightarrow> int \<Rightarrow> StatsProvider \<Rightarrow> StatsFilter call" where
  "stats_filter e target_arg names_arg cpu_index provider =
     (let filter0 = \<lparr>target = target_arg, has_vcpus = False, vcpus = [],
                     has_providers = False, providers = []\<rparr>
      in case (case target_arg of
                 STATS_TARGET_VM \<Rightarrow> Returns filter0
               | STATS_TARGET_VCPU \<Rightarrow>
                   (let cpu = qemu_get_cpu e cpu_index
                    in case object_get_canonical_path e cpu of
                         Faults \<Rightarrow> Faults
                       | Returns canonical_path \<Rightarrow>
                           Returns (filter0\<lparr>has_vcpus := True, vcpus := [canonical_path]\<rparr>))
               | STATS_TARGET_other _ \<Rightarrow> Returns filter0) of
           Faults \<Rightarrow> Faults
         | Returns filter1 \<Rightarrow>
             if names_arg = None \<and> provider = STATS_PROVIDER__MAX e then Returns filter1
             else
               (let request_list =
                      foldl (\<lambda>request_list provider_idx.
                               if provider = STATS_PROVIDER__MAX e \<or> provider = provider_idx
                               then stats_request names_arg provider_idx # request_list
                               else request_list)
                        [] [0 ..< STATS_PROVIDER__MAX e]
                in Returns (filter1\<lparr>has_providers := True, providers := request_list\<rparr>)))"

text \<open>The tail that a linear histogram with a bucket size adds before the closing bracket.\<close>

definition bucket_text :: "StatsSchemaValue \<Rightarrow> string" where
  "bucket_text v =
     (if sv_type v = STATS_TYPE_LINEAR_HISTOGRAM \<and> has_bucket_size v
      then '', bucket size='' @ dec (sint (bucket_size v)) else [])"

text \<open>
  The position of a cursor in the schema list: the number of \<^verbatim>\<open>->next\<close> steps from the
  head of \<open>xs\<close> to the node \<open>c\<close>.
\<close>

definition cursor_index :: "'a list \<Rightarrow> 'a list \<Rightarrow> nat" where
  "cursor_index xs c = length xs - length c"

text \<open>What rendering one stat with one schema entry writes: the entry, then the value.\<close>

definition stat_writes :: "env \<Rightarrow> Stats \<Rightarrow> StatsSchemaValue \<Rightarrow> string list" where
  "stat_writes e stats schema_value =
     writes_of (print_stats_schema_value e schema_value) @
     writes_of (print_stats_value (st_value stats))"

subsection \<open>Management API\<close>

text \<open>
  The records of the generated QAPI types that the shims print. A number is a word of the
  width its conversion reads: 32 bits for \<^verbatim>\<open>%d\<close> and \<^verbatim>\<open>%PRId32\<close>, 64 bits for \<^verbatim>\<open>%PRId64\<close>
  and \<^verbatim>\<open>%PRIx64\<close>. An optional sub-record (a pointer that may be NULL) is an \<open>option\<close>.
\<close>

datatype TpmTypeOptions =
  TPM_PASSTHROUGH "string option" "string option" | TPM_EMULATOR string | TPM_MAX

fun tpm_options_type :: "TpmTypeOptions \<Rightarrow> TpmType" where
  "tpm_options_type (TPM_PASSTHROUGH path cancel_path) = TPM_TYPE_PASSTHROUGH"
| "tpm_options_type (TPM_EMULATOR chardev) = TPM_TYPE_EMULATOR"
| "tpm_options_type TPM_MAX = TPM_TYPE__MAX"

record TPMInfo =
  tpm_id :: string
  tpm_model :: TpmModel
  tpm_options :: TpmTypeOptions

record VirtioInfo =
  vi_path :: string
  vi_name :: string

record VhostStatus =
  vh_nvqs :: "32 word"
  vh_vq_index :: "64 word"
  vh_max_queues :: "64 word"
  vh_n_mem_sections :: "64 word"
  vh_n_tmp_sections :: "64 word"
  vh_backend_cap :: "64 word"
  vh_log_enabled :: bool
  vh_log_size :: "64 word"
  vh_features :: VirtioDeviceFeatures
  vh_acked_features :: VirtioDeviceFeatures
  vh_backend_features :: VirtioDeviceFeatures
  vh_protocol_features :: VhostDeviceProtocols

record VirtioStatus =
  vs_name :: string
  vs_vhost_dev :: "VhostStatus option"
  vs_device_id :: "32 word"
  vs_vhost_started :: bool
  vs_bus_name :: string
  vs_broken :: bool
  vs_disabled :: bool
  vs_disable_legacy_check :: bool
  vs_started :: bool
  vs_use_started :: bool
  vs_start_on_kick :: bool
  vs_use_guest_notifier_mask :: bool
  vs_vm_running :: bool
  vs_num_vqs :: "64 word"
  vs_queue_sel :: "32 word"
  vs_isr :: "32 word"
  vs_device_endian :: string
  vs_status :: VirtioDeviceStatus
  vs_guest_features :: VirtioDeviceFeatures
  vs_host_features :: VirtioDeviceFeatures
  vs_backend_features :: VirtioDeviceFeatures

record VirtVhostQueueStatus =
  vvq_name :: string
  vvq_kick :: "64 word"
  vvq_call :: "64 word"
  vvq_num :: "64 word"
  vvq_desc :: "64 word"
  vvq_desc_phys :: "64 word"
  vvq_desc_size :: "32 word"
  vvq_avail :: "64 word"
  vvq_avail_phys :: "64 word"
  vvq_avail_size :: "32 word"
  vvq_used :: "64 word"
  vvq_used_phys :: "64 word"
  vvq_used_size :: "32 word"

record VirtQueueStatus =
  vq_name :: string
  vq_queue_index :: "32 word"
  vq_inuse :: "32 word"
  vq_used_idx :: "32 word"
  vq_signalled_used :: "32 word"
  vq_signalled_used_valid :: bool
  vq_has_last_avail_idx :: bool
  vq_last_avail_idx :: "32 word"
  vq_has_shadow_avail_idx :: bool
  vq_shadow_avail_idx :: "32 word"
  vq_vring_num :: "32 word"
  vq_vring_num_default :: "32 word"
  vq_vring_align :: "32 word"
  vq_vring_desc :: "64 word"
  vq_vring_avail :: "64 word"
  vq_vring_used :: "64 word"

record VirtioRingDesc =
  rd_addr :: "64 word"
  rd_len :: "32 word"
  rd_flags :: "string list"

record VirtioRingAvail =
  ra_flags :: "32 word"
  ra_idx :: "32 word"
  ra_ring :: "32 word"

record VirtioRingUsed =
  ru_flags :: "32 word"
  ru_idx :: "32 word"

record VirtioQueueElement =
  qe_name :: string
  qe_index :: "32 word"
  qe_descs :: "VirtioRingDesc list"
  qe_avail :: VirtioRingAvail
  qe_used :: VirtioRingUsed

text \<open>
  The entry points the shims call are outside this file. Each is a parameter: what the
  call answers, \<open>Inl\<close> the error descriptor it stored through \<^verbatim>\<open>&err\<close> or \<open>Inr\<close> the record
  tree it returned; for a command that returns nothing, the descriptor or \<open>None\<close>.
  \<^verbatim>\<open>qapi_enum_parse\<close> with each of its two lookup tables, the two change handlers of the
  monitor and the build options \<^verbatim>\<open>CONFIG_TPM\<close> and \<^verbatim>\<open>CONFIG_VNC\<close> are parameters too. A
  queue number or element index is given to an entry point as the C \<^verbatim>\<open>int\<close> the shim holds;
  what the entry point's own parameter type makes of it is part of the parameter.
\<close>

record mapi =
  CONFIG_TPM :: bool
  CONFIG_VNC :: bool
  qmp_query_tpm :: "Error + TPMInfo list"
  qmp_x_exit_preconfig :: "Error option"
  qmp_cont :: "Error option"
  hmp_change_vnc ::
    "string \<Rightarrow> string \<Rightarrow> string option \<Rightarrow> string option \<Rightarrow> bool \<Rightarrow> Error option"
  hmp_change_medium ::
    "string \<Rightarrow> string \<Rightarrow> string option \<Rightarrow> string option \<Rightarrow> bool \<Rightarrow> Error option"
  qmp_getfd :: "string \<Rightarrow> Error option"
  qmp_closefd :: "string \<Rightarrow> Error option"
  StatsTarget_parse :: "string \<Rightarrow> Error + StatsTarget"
  StatsProvider_parse :: "string \<Rightarrow> Error + StatsProvider"
  qmp_query_stats_schemas :: "bool \<Rightarrow> StatsProvider \<Rightarrow> Error + StatsSchema list"
  qmp_query_stats :: "StatsFilter \<Rightarrow> Error + StatsResult list"
  qmp_x_query_virtio :: "Error + VirtioInfo list"
  qmp_x_query_virtio_status :: "string option \<Rightarrow> Error + VirtioStatus"
  qmp_x_query_virtio_vhost_queue_status :: "string option \<Rightarrow> int \<Rightarrow> Error + VirtVhostQueueStatus"
  qmp_x_query_virtio_queue_status :: "string option \<Rightarrow> int \<Rightarrow> Error + VirtQueueStatus"
  qmp_x_query_virtio_queue_element ::
    "string option \<Rightarrow> int \<Rightarrow> bool \<Rightarrow> int \<Rightarrow> Error + VirtioQueueElement"

subsection \<open>Command shims\<close>

text \<open>\<^verbatim>\<open>%s\<close> given a NULL pointer prints \<^verbatim>\<open>(null)\<close> in the C library the monitor runs on.\<close>

definition str_or_null :: "string option \<Rightarrow> string" where
  "str_or_null s = (case s of None \<Rightarrow> ''(null)'' | Some x \<Rightarrow> x)"

definition true_false :: "bool \<Rightarrow> string" where
  "true_false b = (if b then ''true'' else ''false'')"

text \<open>
  The \<^verbatim>\<open>for\<close> loop of \<^verbatim>\<open>hmp_info_tpm\<close>, with its counter \<open>c\<close>, an \<^verbatim>\<open>unsigned int\<close> that
  is printed with \<^verbatim>\<open>%d\<close>.
\<close>

fun tpm_loop :: "env \<Rightarrow> TPMInfo list \<Rightarrow> 32 word \<Rightarrow> Monitor \<Rightarrow> Monitor" where
  "tpm_loop e [] c mon = mon"
| "tpm_loop e (ti # nxt) c mon =
     (let mon1 = monitor_printf
                   ('' tpm'' @ fmt_d c @ '': model='' @ TpmModel_str e (tpm_model ti) @ nl) mon;
          mon2 = monitor_printf
                   (''  '' @ [CHR 0x5C] @ '' '' @ tpm_id ti @ '': type='' @
                    TpmType_str e (tpm_options_type (tpm_options ti))) mon1;
          mon3 = (case tpm_options ti of
                    TPM_PASSTHROUGH path cancel_path \<Rightarrow>
                      monitor_printf
                        ((case path of Some p \<Rightarrow> '',path='' @ p | None \<Rightarrow> []) @
                         (case cancel_path of Some p \<Rightarrow> '',cancel-path='' @ p | None \<Rightarrow> []))
                        mon2
                  | TPM_EMULATOR chardev \<Rightarrow> monitor_printf ('',chardev='' @ chardev) mon2
                  | TPM_MAX \<Rightarrow> mon2);
          mon4 = monitor_printf nl mon3
      in tpm_loop e nxt (c + 1) mon4)"

definition hmp_info_tpm :: "env \<Rightarrow> mapi \<Rightarrow> Monitor \<Rightarrow> Monitor" where
  "hmp_info_tpm e m mon =
     (if CONFIG_TPM m
      then (case qmp_query_tpm m of
              Inl err \<Rightarrow>
                error_free (Some err) (monitor_printf (''TPM device not supported'' @ nl) mon)
            | Inr info_list \<Rightarrow>
                tpm_loop e info_list 0
                  (if info_list \<noteq> [] then monitor_printf (''TPM device:'' @ nl) mon else mon))
      else monitor_printf (''TPM device not supported'' @ nl) mon)"

definition hmp_exit_preconfig :: "mapi \<Rightarrow> Monitor \<Rightarrow> Monitor" where
  "hmp_exit_preconfig m mon = snd (hmp_handle_error mon (qmp_x_exit_preconfig m))"

definition hmp_cont :: "mapi \<Rightarrow> Monitor \<Rightarrow> Monitor" where
  "hmp_cont m mon = snd (hmp_handle_error mon (qmp_cont m))"

definition hmp_change ::
  "mapi \<Rightarrow> string \<Rightarrow> string \<Rightarrow> string option \<Rightarrow> string option \<Rightarrow> bool \<Rightarrow> Monitor \<Rightarrow> Monitor" where
  "hmp_change m device target_arg arg read_only force mon =
     (let err = (if CONFIG_VNC m \<and> device = ''vnc''
                 then hmp_change_vnc m device target_arg arg read_only force
                 else hmp_change_medium m device target_arg arg read_only force)
      in snd (hmp_handle_error mon err))"

definition hmp_getfd :: "mapi \<Rightarrow> string \<Rightarrow> Monitor \<Rightarrow> Monitor" where
  "hmp_getfd m fdname mon = snd (hmp_handle_error mon (qmp_getfd m fdname))"

definition hmp_closefd :: "mapi \<Rightarrow> string \<Rightarrow> Monitor \<Rightarrow> Monitor" where
  "hmp_closefd m fdname mon = snd (hmp_handle_error mon (qmp_closefd m fdname))"

text \<open>
  How a shim ends: it returns, it calls \<^verbatim>\<open>abort()\<close>, or it does not return because it
  or a function it calls reads through a NULL pointer.
\<close>

datatype shim_exit = Returned | Aborted | Crashed

text \<open>The loop of \<^verbatim>\<open>hmp_info_stats\<close> over the result entries.\<close>

fun stats_entries_loop ::
  "env \<Rightarrow> StatsTarget \<Rightarrow> bool \<Rightarrow> StatsSchema list \<Rightarrow> StatsResult list \<Rightarrow> Monitor \<Rightarrow>
   shim_exit \<times> Monitor" where
  "stats_entries_loop e target_arg show_provider schema [] mon = (Returned, mon)"
| "stats_entries_loop e target_arg show_provider schema (entry # nxt) mon =
     (case print_stats_results e target_arg show_provider entry schema mon of
        (mon1, cursors, ex) \<Rightarrow>
          if ex = Null_deref then (Crashed, mon1)
          else stats_entries_loop e target_arg show_provider schema nxt mon1)"

text \<open>
  The two labels that end \<^verbatim>\<open>hmp_info_stats\<close>: \<^verbatim>\<open>exit\<close> prints the error's pretty
  description and falls through to \<^verbatim>\<open>exit_no_print\<close>, which frees the descriptor.
\<close>

definition info_stats_exit_no_print :: "Error option \<Rightarrow> Monitor \<Rightarrow> Monitor" where
  "info_stats_exit_no_print err mon = error_free err mon"

definition info_stats_exit :: "Error option \<Rightarrow> Monitor \<Rightarrow> Monitor" where
  "info_stats_exit err mon =
     info_stats_exit_no_print err
       (case err of Some x \<Rightarrow> monitor_printf (error_get_pretty x @ nl) mon | None \<Rightarrow> mon)"

definition hmp_info_stats ::
  "env \<Rightarrow> mapi \<Rightarrow> string \<Rightarrow> string option \<Rightarrow> string option \<Rightarrow> Monitor \<Rightarrow>
   shim_exit \<times> Monitor" where
  "hmp_info_stats e m target_str provider_str names_arg mon =
     (case StatsTarget_parse m target_str of
        Inl err \<Rightarrow>
          (Returned,
           info_stats_exit_no_print (Some err)
             (monitor_printf (''invalid stats target '' @ target_str @ nl) mon))
      | Inr target_arg \<Rightarrow>
          (case (case provider_str of
                   None \<Rightarrow> Inr (STATS_PROVIDER__MAX e)
                 | Some ps \<Rightarrow> StatsProvider_parse m ps) of
             Inl err \<Rightarrow>
               (Returned,
                info_stats_exit_no_print (Some err)
                  (monitor_printf (''invalid stats provider '' @ str_or_null provider_str @ nl) mon))
           | Inr provider \<Rightarrow>
               (case qmp_query_stats_schemas m (provider_str \<noteq> None) provider of
                  Inl err \<Rightarrow> (Returned, info_stats_exit (Some err) mon)
                | Inr schema \<Rightarrow>
                    (case (case target_arg of
                             STATS_TARGET_VM \<Rightarrow>
                               Some (stats_filter e target_arg names_arg (- 1) provider)
                           | STATS_TARGET_VCPU \<Rightarrow>
                               Some (stats_filter e target_arg names_arg (mon_cpu_index mon) provider)
                           | STATS_TARGET_other _ \<Rightarrow> None) of
                       None \<Rightarrow> (Aborted, mon)
                     | Some Faults \<Rightarrow> (Crashed, mon)
                     | Some (Returns filter_arg) \<Rightarrow>
                         (case qmp_query_stats m filter_arg of
                            Inl err \<Rightarrow> (Returned, info_stats_exit (Some err) mon)
                          | Inr stats \<Rightarrow>
                              (case stats_entries_loop e target_arg (provider_str = None) schema
                                      stats mon of
                                 (Returned, mon1) \<Rightarrow> (Returned, info_stats_exit None mon1)
                               | (ex, mon1) \<Rightarrow> (ex, mon1)))))))"

text \<open>The \<^verbatim>\<open>while\<close> loop of \<^verbatim>\<open>hmp_virtio_query\<close>.\<close>

fun virtio_query_loop :: "VirtioInfo list \<Rightarrow> Monitor \<Rightarrow> Monitor" where
  "virtio_query_loop [] mon = mon"
| "virtio_query_loop (node # nxt) mon =
     virtio_query_loop nxt (monitor_printf (vi_path node @ '' ['' @ vi_name node @ '']'' @ nl) mon)"

definition hmp_virtio_query :: "mapi \<Rightarrow> Monitor \<Rightarrow> Monitor" where
  "hmp_virtio_query m mon =
     (case qmp_x_query_virtio m of
        Inl err \<Rightarrow> snd (hmp_handle_error mon (Some err))
      | Inr list \<Rightarrow>
          if list = [] then monitor_printf (''No VirtIO devices'' @ nl) mon
          else virtio_query_loop list mon)"

text \<open>
  The four virtio query shims. A run of consecutive \<^verbatim>\<open>monitor_printf\<close> calls is a \<open>fold\<close>
  over the strings they write, first call first. \<open>queue_arg\<close> and \<open>index_arg\<close> are the
  integers of the argument map (\<open>index_arg\<close> is \<open>None\<close> when the option is absent); the shims
  store them in the locals \<^verbatim>\<open>int queue\<close> and \<^verbatim>\<open>int index\<close>.
\<close>

definition vhost_status_block :: "VhostStatus \<Rightarrow> Monitor \<Rightarrow> Monitor" where
  "vhost_status_block vh mon =
     (let mon1 = fold monitor_printf
            [''  VHost:'' @ nl,
             ''    nvqs:           '' @ fmt_d (vh_nvqs vh) @ nl,
             ''    vq_index:       '' @ fmt_PRId64 (vh_vq_index vh) @ nl,
             ''    max_queues:     '' @ fmt_PRId64 (vh_max_queues vh) @ nl,
             ''    n_mem_sections: '' @ fmt_PRId64 (vh_n_mem_sections vh) @ nl,
             ''    n_tmp_sections: '' @ fmt_PRId64 (vh_n_tmp_sections vh) @ nl,
             ''    backend_cap:    '' @ fmt_PRId64 (vh_backend_cap vh) @ nl,
             ''    log_enabled:    '' @ true_false (vh_log_enabled vh) @ nl,
             ''    log_size:       '' @ fmt_PRId64 (vh_log_size vh) @ nl,
             ''    Features:'' @ nl] mon;
          mon2 = hmp_virtio_dump_features (vh_features vh) mon1;
          mon3 = monitor_printf (''    Acked features:'' @ nl) mon2;
          mon4 = hmp_virtio_dump_features (vh_acked_features vh) mon3;
          mon5 = monitor_printf (''    Backend features:'' @ nl) mon4;
          mon6 = hmp_virtio_dump_features (vh_backend_features vh) mon5;
          mon7 = monitor_printf (''    Protocol features:'' @ nl) mon6
      in hmp_virtio_dump_protocols (vh_protocol_features vh) mon7)"

definition hmp_virtio_status :: "mapi \<Rightarrow> string option \<Rightarrow> Monitor \<Rightarrow> Monitor" where
  "hmp_virtio_status m path mon =
     (case qmp_x_query_virtio_status m path of
        Inl err \<Rightarrow> snd (hmp_handle_error mon (Some err))
      | Inr s \<Rightarrow>
          (let mon1 = fold monitor_printf
                 [str_or_null path @ '':'' @ nl,
                  ''  device_name:             '' @ vs_name s @ '' '' @
                    (if vs_vhost_dev s \<noteq> None then ''(vhost)'' else []) @ nl,
                  ''  device_id:               '' @ fmt_d (vs_device_id s) @ nl,
                  ''  vhost_started:           '' @ true_false (vs_vhost_started s) @ nl,
                  ''  bus_name:                '' @ vs_bus_name s @ nl,
                  ''  broken:                  '' @ true_false (vs_broken s) @ nl,
                  ''  disabled:                '' @ true_false (vs_disabled s) @ nl,
                  ''  disable_legacy_check:    '' @ true_false (vs_disable_legacy_check s) @ nl,
                  ''  started:                 '' @ true_false (vs_started s) @ nl,
                  ''  use_started:             '' @ true_false (vs_use_started s) @ nl,
                  ''  start_on_kick:           '' @ true_false (vs_start_on_kick s) @ nl,
                  ''  use_guest_notifier_mask: '' @ true_false (vs_use_guest_notifier_mask s) @ nl,
                  ''  vm_running:              '' @ true_false (vs_vm_running s) @ nl,
                  ''  num_vqs:                 '' @ fmt_PRId64 (vs_num_vqs s) @ nl,
                  ''  queue_sel:               '' @ fmt_d (vs_queue_sel s) @ nl,
                  ''  isr:                     '' @ fmt_d (vs_isr s) @ nl,
                  ''  endianness:              '' @ vs_device_endian s @ nl,
                  ''  status:'' @ nl] mon;
               mon2 = hmp_virtio_dump_status (vs_status s) mon1;
               mon3 = monitor_printf (''  Guest features:'' @ nl) mon2;
               mon4 = hmp_virtio_dump_features (vs_guest_features s) mon3;
               mon5 = monitor_printf (''  Host features:'' @ nl) mon4;
               mon6 = hmp_virtio_dump_features (vs_host_features s) mon5;
               mon7 = monitor_printf (''  Backend features:'' @ nl) mon6;
               mon8 = hmp_virtio_dump_features (vs_backend_features s) mon7
           in case vs_vhost_dev s of
                None \<Rightarrow> mon8
              | Some vh \<Rightarrow> vhost_status_block vh mon8))"

definition hmp_vhost_queue_status ::
  "mapi \<Rightarrow> string option \<Rightarrow> int \<Rightarrow> Monitor \<Rightarrow> Monitor" where
  "hmp_vhost_queue_status m path queue_arg mon =
     (case qmp_x_query_virtio_vhost_queue_status m path (int32_of queue_arg) of
        Inl err \<Rightarrow> snd (hmp_handle_error mon (Some err))
      | Inr s \<Rightarrow>
          fold monitor_printf
            [str_or_null path @ '':'' @ nl,
             ''  device_name:          '' @ vvq_name s @ '' (vhost)'' @ nl,
             ''  kick:                 '' @ fmt_PRId64 (vvq_kick s) @ nl,
             ''  call:                 '' @ fmt_PRId64 (vvq_call s) @ nl,
             ''  VRing:'' @ nl,
             ''    num:         '' @ fmt_PRId64 (vvq_num s) @ nl,
             ''    desc:        0x'' @ hex016 (unat (vvq_desc s)) @ nl,
             ''    desc_phys:   0x'' @ hex016 (unat (vvq_desc_phys s)) @ nl,
             ''    desc_size:   '' @ fmt_d (vvq_desc_size s) @ nl,
             ''    avail:       0x'' @ hex016 (unat (vvq_avail s)) @ nl,
             ''    avail_phys:  0x'' @ hex016 (unat (vvq_avail_phys s)) @ nl,
             ''    avail_size:  '' @ fmt_d (vvq_avail_size s) @ nl,
             ''    used:        0x'' @ hex016 (unat (vvq_used s)) @ nl,
             ''    used_phys:   0x'' @ hex016 (unat (vvq_used_phys s)) @ nl,
             ''    used_size:   '' @ fmt_d (vvq_used_size s) @ nl] mon)"

definition hmp_virtio_queue_status ::
  "mapi \<Rightarrow> string option \<Rightarrow> int \<Rightarrow> Monitor \<Rightarrow> Monitor" where
  "hmp_virtio_queue_status m path queue_arg mon =
     (case qmp_x_query_virtio_queue_status m path (int32_of queue_arg) of
        Inl err \<Rightarrow> snd (hmp_handle_error mon (Some err))
      | Inr s \<Rightarrow>
          (let mon1 = fold monitor_printf
                 [str_or_null path @ '':'' @ nl,
                  ''  device_name:          '' @ vq_name s @ nl,
                  ''  queue_index:          '' @ fmt_d (vq_queue_index s) @ nl,
                  ''  inuse:                '' @ fmt_d (vq_inuse s) @ nl,
                  ''  used_idx:             '' @ fmt_d (vq_used_idx s) @ nl,
                  ''  signalled_used:       '' @ fmt_d (vq_signalled_used s) @ nl,
                  ''  signalled_used_valid: '' @ true_false (vq_signalled_used_valid s) @ nl] mon;
               mon2 = (if vq_has_last_avail_idx s
                       then monitor_printf
                              (''  last_avail_idx:       '' @ fmt_d (vq_last_avail_idx s) @ nl) mon1
                       else mon1);
               mon3 = (if vq_has_shadow_avail_idx s
                       then monitor_printf
                              (''  shadow_avail_idx:     '' @ fmt_d (vq_shadow_avail_idx s) @ nl) mon2
                       else mon2)
           in fold monitor_printf
                [''  VRing:'' @ nl,
                 ''    num:          '' @ fmt_d (vq_vring_num s) @ nl,
                 ''    num_default:  '' @ fmt_d (vq_vring_num_default s) @ nl,
                 ''    align:        '' @ fmt_d (vq_vring_align s) @ nl,
                 ''    desc:         0x'' @ hex016 (unat (vq_vring_desc s)) @ nl,
                 ''    avail:        0x'' @ hex016 (unat (vq_vring_avail s)) @ nl,
                 ''    used:         0x'' @ hex016 (unat (vq_vring_used s)) @ nl] mon3))"

text \<open>The two nested \<^verbatim>\<open>while\<close> loops of \<^verbatim>\<open>hmp_virtio_queue_element\<close>.\<close>

fun desc_flags_loop :: "string list \<Rightarrow> Monitor \<Rightarrow> Monitor" where
  "desc_flags_loop [] mon = mon"
| "desc_flags_loop (flag # nxt) mon =
     (let mon1 = monitor_printf flag mon
      in desc_flags_loop nxt (if nxt \<noteq> [] then monitor_printf '', '' mon1 else mon1))"

fun descs_loop :: "VirtioRingDesc list \<Rightarrow> Monitor \<Rightarrow> Monitor" where
  "descs_loop [] mon = mon"
| "descs_loop (d # nxt) mon =
     (let mon1 = monitor_printf
                   (''        addr 0x'' @ hex_nat (unat (rd_addr d)) @ '' len '' @ fmt_d (rd_len d)) mon;
          mon2 = (if rd_flags d \<noteq> []
                  then monitor_printf '')'' (desc_flags_loop (rd_flags d) (monitor_printf '' ('' mon1))
                  else mon1);
          mon3 = (if nxt \<noteq> [] then monitor_printf ('','' @ nl) mon2 else mon2)
      in descs_loop nxt mon3)"

definition hmp_virtio_queue_element ::
  "mapi \<Rightarrow> string option \<Rightarrow> int \<Rightarrow> int option \<Rightarrow> Monitor \<Rightarrow> Monitor" where
  "hmp_virtio_queue_element m path queue_arg index_arg mon =
     (let queue = int32_of queue_arg;
          index = int32_of (case index_arg of None \<Rightarrow> - 1 | Some i \<Rightarrow> i)
      in case qmp_x_query_virtio_queue_element m path queue (index \<noteq> - 1) index of
           Inl err \<Rightarrow> snd (hmp_handle_error mon (Some err))
         | Inr el \<Rightarrow>
             (let mon1 = fold monitor_printf
                    [str_or_null path @ '':'' @ nl,
                     ''  device_name: '' @ qe_name el @ nl,
                     ''  index:   '' @ fmt_d (qe_index el) @ nl,
                     ''  desc:'' @ nl,
                     ''    descs:'' @ nl] mon;
                  mon2 = descs_loop (qe_descs el) mon1
              in fold monitor_printf
                   [nl,
                    ''  avail:'' @ nl,
                    ''    flags: '' @ fmt_d (ra_flags (qe_avail el)) @ nl,
                    ''    idx:   '' @ fmt_d (ra_idx (qe_avail el)) @ nl,
                    ''    ring:  '' @ fmt_d (ra_ring (qe_avail el)) @ nl,
                    ''  used:'' @ nl,
                    ''    flags: '' @ fmt_d (ru_flags (qe_used el)) @ nl,
                    ''    idx:   '' @ fmt_d (ru_idx (qe_used el)) @ nl] mon2))"

text \<open>
  What the error relay does to the monitor for a descriptor: one line, the prefix
  \<open>"Error: "\<close> and the pretty description, and the descriptor released.
\<close>

definition relayed :: "Error \<Rightarrow> Monitor \<Rightarrow> Monitor" where
  "relayed err mon =
     mon\<lparr>out := out mon @ [''Error: '' @ error_get_pretty err @ nl], freed := freed mon @ [err]\<rparr>"

subsection \<open>Sample inputs\<close>

text \<open>Concrete environments and records on which the definitions are run.\<close>

definition demo_env :: env where
  "demo_env =
     \<lparr>RunState_str = (\<lambda>s. case s of RUN_STATE_PAUSED \<Rightarrow> ''paused''
                           | RUN_STATE_GUEST_PANICKED \<Rightarrow> ''guest-panicked''
                           | RUN_STATE_other _ \<Rightarrow> ''shutdown''),
      StatsType_str = (\<lambda>t. case t of STATS_TYPE_LINEAR_HISTOGRAM \<Rightarrow> ''linear-histogram''
                           | STATS_TYPE_other _ \<Rightarrow> ''cumulative''),
      StatsUnit_str = (\<lambda>u. case u of STATS_UNIT_SECONDS \<Rightarrow> ''seconds''
                           | STATS_UNIT_BYTES \<Rightarrow> ''bytes''
                           | STATS_UNIT_other _ \<Rightarrow> ''cycles''),
      StatsProvider_str = (\<lambda>p. if p = 0 then ''kvm'' else ''cryptodev''),
      TpmModel_str = (\<lambda>m. if m = 0 then ''tpm-tis'' else ''tpm-crb''),
      TpmType_str = (\<lambda>t. case t of TPM_TYPE_PASSTHROUGH \<Rightarrow> ''passthrough''
                         | TPM_TYPE_EMULATOR \<Rightarrow> ''emulator'' | TPM_TYPE__MAX \<Rightarrow> []),
      si_prefix = (\<lambda>x. if x = - 9 then ''n'' else if x = 3 then ''k'' else if x = 6 then ''M''
                        else if x = - 3 then ''m'' else []),
      iec_binary_prefix = (\<lambda>x. if x = 10 then ''Ki'' else if x = 20 then ''Mi'' else []),
      STATS_PROVIDER__MAX = 2,
      qemu_get_cpu = (\<lambda>i. if 0 \<le> i \<and> i < 4 then Some (nat i) else None),
      object_get_canonical_path =
        (\<lambda>cpu. case cpu of
                 Some c \<Rightarrow> Returns (''/machine/unattached/device['' @ dec (int c) @ '']'')
               | None \<Rightarrow> Faults)\<rparr>"

definition mon0 :: Monitor where
  "mon0 = \<lparr>out = [], freed = [], mon_cpu_index = 0\<rparr>"

definition demo_status :: VirtioDeviceStatus where
  "demo_status =
     \<lparr>statuses = [''ACKNOWLEDGE'', ''DRIVER'', ''DRIVER_OK''],
      has_unknown_statuses = True, unknown_statuses = 0x80\<rparr>"

definition demo_protocols :: VhostDeviceProtocols where
  "demo_protocols =
     \<lparr>protocols = [''MQ''], has_unknown_protocols = False, unknown_protocols = 0\<rparr>"

definition demo_features :: VirtioDeviceFeatures where
  "demo_features =
     \<lparr>transports = [''ANY_LAYOUT'', ''VERSION_1''], dev_features = [],
      has_unknown_dev_features = False, unknown_dev_features = 0\<rparr>"

definition demo_features2 :: VirtioDeviceFeatures where
  "demo_features2 =
     \<lparr>transports = [''VERSION_1''], dev_features = [''CSUM'', ''MAC''],
      has_unknown_dev_features = False, unknown_dev_features = 0\<rparr>"

definition empty_status :: VirtioDeviceStatus where
  "empty_status = \<lparr>statuses = [], has_unknown_statuses = True, unknown_statuses = 0xff\<rparr>"

definition empty_protocols :: VhostDeviceProtocols where
  "empty_protocols = \<lparr>protocols = [], has_unknown_protocols = False, unknown_protocols = 0\<rparr>"

definition empty_features :: VirtioDeviceFeatures where
  "empty_features =
     \<lparr>transports = [], dev_features = [], has_unknown_dev_features = False,
      unknown_dev_features = 0\<rparr>"

definition demo_value_plain :: StatsSchemaValue where
  "demo_value_plain =
     \<lparr>sv_name = ''exits'', sv_type = STATS_TYPE_other 0, has_unit = False,
      sv_unit = STATS_UNIT_other 0, base = 10, exponent = 0, has_bucket_size = False,
      bucket_size = 0\<rparr>"

definition demo_value_bytes :: StatsSchemaValue where
  "demo_value_bytes =
     \<lparr>sv_name = ''size'', sv_type = STATS_TYPE_other 0, has_unit = True,
      sv_unit = STATS_UNIT_BYTES, base = 2, exponent = 0, has_bucket_size = False,
      bucket_size = 0\<rparr>"

definition demo_value_exp7 :: StatsSchemaValue where
  "demo_value_exp7 =
     \<lparr>sv_name = ''halt_wait'', sv_type = STATS_TYPE_LINEAR_HISTOGRAM, has_unit = True,
      sv_unit = STATS_UNIT_SECONDS, base = 10, exponent = 7, has_bucket_size = True,
      bucket_size = 4\<rparr>"

definition demo_value_ns :: StatsSchemaValue where
  "demo_value_ns =
     \<lparr>sv_name = ''halt_poll_success_ns'', sv_type = STATS_TYPE_other 0, has_unit = True,
      sv_unit = STATS_UNIT_SECONDS, base = 10, exponent = - 9, has_bucket_size = False,
      bucket_size = 0\<rparr>"

definition demo_value_big :: StatsSchemaValue where
  "demo_value_big =
     \<lparr>sv_name = ''wait'', sv_type = STATS_TYPE_LINEAR_HISTOGRAM, has_unit = False,
      sv_unit = STATS_UNIT_other 0, base = 10, exponent = 0, has_bucket_size = True,
      bucket_size = 4294967295\<rparr>"

definition demo_schema :: "StatsSchema list" where
  "demo_schema =
     [\<lparr>sch_provider = 0, sch_target = STATS_TARGET_VCPU, sch_stats = [demo_value_plain]\<rparr>,
      \<lparr>sch_provider = 0, sch_target = STATS_TARGET_VM,
       sch_stats = [demo_value_plain, demo_value_ns, demo_value_bytes]\<rparr>]"

definition demo_result :: StatsResult where
  "demo_result =
     \<lparr>sr_provider = 0,
      sr_stats = [\<lparr>st_name = ''exits'', st_value = QTYPE_QNUM 12345\<rparr>,
                  \<lparr>st_name = ''size'', st_value = QTYPE_QLIST [1, 2]\<rparr>]\<rparr>"

definition demo_mapi :: mapi where
  "demo_mapi =
     \<lparr>CONFIG_TPM = True, CONFIG_VNC = True,
      qmp_query_tpm = Inl (Error ''no tpm''),
      qmp_x_exit_preconfig = Some (Error ''not in preconfig state''),
      qmp_cont = Some (Error ''cannot resume''),
      hmp_change_vnc = (\<lambda>device target_arg arg read_only force. Some (Error ''no vnc'')),
      hmp_change_medium = (\<lambda>device target_arg arg read_only force. Some (Error ''no medium'')),
      qmp_getfd = (\<lambda>fdname. Some (Error ''no fd passed'')),
      qmp_closefd = (\<lambda>fdname. Some (Error ''fd not found'')),
      StatsTarget_parse =
        (\<lambda>s. if s = ''vm'' then Inr STATS_TARGET_VM
             else if s = ''vcpu'' then Inr STATS_TARGET_VCPU else Inl (Error ''bad target'')),
      StatsProvider_parse = (\<lambda>s. if s = ''kvm'' then Inr 0 else Inl (Error ''bad provider'')),
      qmp_query_stats_schemas =
        (\<lambda>has_provider provider.
           if has_provider then Inr demo_schema else Inl (Error ''no schemas'')),
      qmp_query_stats = (\<lambda>filter_arg. Inl (Error ''no stats'')),
      qmp_x_query_virtio = Inl (Error ''no virtio''),
      qmp_x_query_virtio_status = (\<lambda>path. Inl (Error ''no such device'')),
      qmp_x_query_virtio_vhost_queue_status = (\<lambda>path queue. Inl (Error ''no vhost'')),
      qmp_x_query_virtio_queue_status = (\<lambda>path queue. Inl (Error ''no such queue'')),
      qmp_x_query_virtio_queue_element =
        (\<lambda>path queue has_index index.
           if has_index then Inl (Error ''no element'') else Inl (Error ''queue is empty''))\<rparr>"

section \<open>Properties\<close>

subsection \<open>Comma splitter\<close>

lemma split_append_loop_eq: "split_append_loop fs res = res @ fs"
  by (induction fs arbitrary: res) simp_all

lemma g_strsplit_loop_field:
  "CHR '','' \<notin> set x \<Longrightarrow> g_strsplit_loop tok x = [tok @ x]"
  by (induction x arbitrary: tok) auto

lemma g_strsplit_loop_comma:
  "CHR '','' \<notin> set x \<Longrightarrow>
   g_strsplit_loop tok (x @ CHR '','' # rest) = (tok @ x) # g_strsplit_loop [] rest"
  by (induction x arbitrary: tok) auto

lemma g_strsplit_loop_join:
  "xs \<noteq> [] \<Longrightarrow> \<forall>x \<in> set xs. CHR '','' \<notin> set x \<Longrightarrow>
   g_strsplit_loop [] (comma_join xs) = xs"
proof (induction xs rule: comma_join.induct)
  case 1
  then show ?case by simp
next
  case (2 x)
  then show ?case by (simp add: g_strsplit_loop_field)
next
  case (3 x y ys)
  have "g_strsplit_loop [] (x @ CHR '','' # comma_join (y # ys)) =
        ([] @ x) # g_strsplit_loop [] (comma_join (y # ys))"
    using 3 by (intro g_strsplit_loop_comma) simp
  with 3 show ?case by simp
qed

lemma comma_join_empty_iff:
  "\<forall>x \<in> set xs. x \<noteq> [] \<Longrightarrow> comma_join xs = [] \<longleftrightarrow> xs = []"
  by (induction xs rule: comma_join.induct) simp_all

text \<open>
  C6 (as stated): for every list of non-empty strings, splitting the comma-join gives the
  list back. This fails for a field that itself contains a comma: the one-element list
  \<open>["a,b"]\<close> joins to \<open>"a,b"\<close>, which splits into two fields.
\<close>

theorem split_join_counterexample:
  "''a,b'' \<noteq> [] \<and>
   hmp_split_at_comma (Some (comma_join [''a,b''])) = [''a'', ''b''] \<and>
   hmp_split_at_comma (Some (comma_join [''a,b''])) \<noteq> [''a,b'']"
  by (simp add: hmp_split_at_comma_def g_strsplit_comma_def)

text \<open>
  C6 (amended): for every list \<open>xs\<close> of strings that are each non-empty and contain no
  comma, splitting the comma-join of \<open>xs\<close> gives \<open>xs\<close> back; the empty string and the null
  pointer both split into the empty sequence.
\<close>

theorem split_join_inverse:
  "(\<forall>x \<in> set xs. x \<noteq> [] \<and> CHR '','' \<notin> set x) \<longrightarrow>
     hmp_split_at_comma (Some (comma_join xs)) = xs \<and>
     hmp_split_at_comma (Some []) = [] \<and>
     hmp_split_at_comma None = []"
proof
  assume h: "\<forall>x \<in> set xs. x \<noteq> [] \<and> CHR '','' \<notin> set x"
  have e: "comma_join xs = [] \<longleftrightarrow> xs = []"
    using h by (intro comma_join_empty_iff) simp
  have "g_strsplit_comma (comma_join xs) = xs"
  proof (cases "xs = []")
    case True
    then show ?thesis by (simp add: g_strsplit_comma_def)
  next
    case False
    then show ?thesis
      using h e by (simp add: g_strsplit_comma_def g_strsplit_loop_join)
  qed
  then show "hmp_split_at_comma (Some (comma_join xs)) = xs \<and>
     hmp_split_at_comma (Some []) = [] \<and> hmp_split_at_comma None = []"
    by (simp add: hmp_split_at_comma_def split_append_loop_eq g_strsplit_comma_def)
qed

theorem split_join_inverse_witness:
  "hmp_split_at_comma (Some (comma_join [''exits'', ''halt_poll_success_ns''])) =
     [''exits'', ''halt_poll_success_ns''] \<and>
   hmp_split_at_comma (Some ''a,,b'') = [''a'', [], ''b'']"
proof -
  have "hmp_split_at_comma (Some (comma_join [''exits'', ''halt_poll_success_ns''])) =
     [''exits'', ''halt_poll_success_ns'']"
    using split_join_inverse [of "[''exits'', ''halt_poll_success_ns'']"] by simp
  moreover have "hmp_split_at_comma (Some ''a,,b'') = [''a'', [], ''b'']"
    by (simp add: hmp_split_at_comma_def g_strsplit_comma_def)
  ultimately show ?thesis by simp
qed

subsection \<open>info status\<close>

lemma monitor_text_printf [simp]: "monitor_text (monitor_printf s mon) = monitor_text mon @ s"
  by (simp add: monitor_text_def monitor_printf_def)

lemma monitor_text_puts [simp]: "monitor_text (monitor_puts s mon) = monitor_text mon @ s"
  by (simp add: monitor_text_def monitor_puts_def)

lemma out_printf [simp]: "out (monitor_printf s mon) = out mon @ [s]"
  by (simp add: monitor_printf_def)

lemma out_puts [simp]: "out (monitor_puts s mon) = out mon @ [s]"
  by (simp add: monitor_puts_def)

lemma freed_printf [simp]: "freed (monitor_printf s mon) = freed mon"
  by (simp add: monitor_printf_def)

lemma freed_puts [simp]: "freed (monitor_puts s mon) = freed mon"
  by (simp add: monitor_puts_def)

text \<open>
  C8: while the machine runs, the status enum has no part in the line, which is
  \<open>"VM status: running\n"\<close> with \<open>" (single step mode)"\<close> inserted exactly when singlestep is
  set; a machine that is not running, not single-stepping and in state GUEST_PANICKED gives
  \<open>"VM status: paused (guest-panicked)\n"\<close>, the name table mapping GUEST_PANICKED to
  \<open>"guest-panicked"\<close>.
\<close>

theorem info_status_line:
  "(running info \<longrightarrow>
      monitor_text (hmp_info_status e info mon) =
        monitor_text mon @ ''VM status: running'' @
        (if singlestep info then '' (single step mode)'' else []) @ nl) \<and>
   (\<not> running info \<and> \<not> singlestep info \<and> status info = RUN_STATE_GUEST_PANICKED \<and>
    RunState_str e RUN_STATE_GUEST_PANICKED = ''guest-panicked'' \<longrightarrow>
      monitor_text (hmp_info_status e info mon) =
        monitor_text mon @ ''VM status: paused (guest-panicked)'' @ nl)"
  by (simp add: hmp_info_status_def Let_def)

theorem info_status_line_witness:
  "monitor_text (hmp_info_status demo_env
      \<lparr>running = True, singlestep = False, status = RUN_STATE_other 3\<rparr> mon0) =
     ''VM status: running'' @ nl \<and>
   monitor_text (hmp_info_status demo_env
      \<lparr>running = True, singlestep = True, status = RUN_STATE_GUEST_PANICKED\<rparr> mon0) =
     ''VM status: running (single step mode)'' @ nl \<and>
   monitor_text (hmp_info_status demo_env
      \<lparr>running = False, singlestep = False, status = RUN_STATE_GUEST_PANICKED\<rparr> mon0) =
     ''VM status: paused (guest-panicked)'' @ nl"
proof -
  have m: "monitor_text mon0 = []"
    by (simp add: monitor_text_def mon0_def)
  have g: "RunState_str demo_env RUN_STATE_GUEST_PANICKED = ''guest-panicked''"
    by (simp add: demo_env_def)
  show ?thesis
    using info_status_line [of "\<lparr>running = True, singlestep = False, status = RUN_STATE_other 3\<rparr>"
            demo_env mon0]
          info_status_line [of "\<lparr>running = True, singlestep = True,
            status = RUN_STATE_GUEST_PANICKED\<rparr>" demo_env mon0]
          info_status_line [of "\<lparr>running = False, singlestep = False,
            status = RUN_STATE_GUEST_PANICKED\<rparr>" demo_env mon0]
    by (simp add: m g)
qed

subsection \<open>Virtio list dumpers\<close>

lemma virtio_dump_loop_out:
  "out (virtio_dump_loop xs mon) = out mon @ list_writes xs"
proof (induction xs arbitrary: mon)
  case Nil
  then show ?case by (simp add: list_writes_def)
next
  case (Cons x xs)
  then show ?case
    by (cases xs) (simp_all add: list_writes_def Let_def)
qed

lemma count_separated:
  "sep \<notin> set ys \<Longrightarrow> count_list (separated sep ys) sep = length ys - 1"
  by (induction sep ys rule: separated.induct) auto

lemma count_separated_other:
  "s \<notin> set ys \<Longrightarrow> s \<noteq> sep \<Longrightarrow> count_list (separated sep ys) s = 0"
  by (induction sep ys rule: separated.induct) auto

lemma filter_separated:
  "sep \<notin> set ys \<Longrightarrow> filter (\<lambda>w. w \<noteq> sep) (separated sep ys) = ys"
  by (induction sep ys rule: separated.induct) auto

lemma list_writes_count_sep: "count_list (list_writes xs) ('','' @ nl) = length xs - 1"
proof -
  have "'','' @ nl \<notin> set (map (\<lambda>x. tab @ x) xs)" by auto
  then show ?thesis
    unfolding list_writes_def using count_separated by fastforce
qed

lemma list_writes_count_nl: "count_list (list_writes xs) nl = 0"
proof -
  have "nl \<notin> set (map (\<lambda>x. tab @ x) xs)" by auto
  then show ?thesis
    unfolding list_writes_def by (intro count_separated_other) simp_all
qed

lemma list_writes_elements:
  "filter (\<lambda>w. w \<noteq> '','' @ nl) (list_writes xs) = map (\<lambda>x. tab @ x) xs"
proof -
  have "'','' @ nl \<notin> set (map (\<lambda>x. tab @ x) xs)" by auto
  then show ?thesis
    unfolding list_writes_def by (rule filter_separated)
qed

lemma dump_protocols_out:
  "out (hmp_virtio_dump_protocols pcol mon) =
     out mon @ list_writes (protocols pcol) @ [nl] @
     unknown_line ''protocols'' (has_unknown_protocols pcol) (unat (unknown_protocols pcol))"
  by (simp add: hmp_virtio_dump_protocols_def Let_def virtio_dump_loop_out unknown_line_def)

lemma dump_status_out:
  "out (hmp_virtio_dump_status st mon) =
     out mon @ list_writes (statuses st) @ [nl] @
     unknown_line ''statuses'' (has_unknown_statuses st) (unat (unknown_statuses st))"
  by (simp add: hmp_virtio_dump_status_def Let_def virtio_dump_loop_out unknown_line_def)

lemma dump_features_out:
  "out (hmp_virtio_dump_features f mon) =
     out mon @ list_writes (transports f) @ [nl] @
     (if dev_features f = [] then [] else list_writes (dev_features f) @ [nl]) @
     unknown_line ''features'' (has_unknown_dev_features f) (unat (unknown_dev_features f))"
  by (simp add: hmp_virtio_dump_features_def Let_def virtio_dump_loop_out unknown_line_def)

lemma length_separated: "length (separated sep ys) = 2 * length ys - 1"
  by (induction sep ys rule: separated.induct) auto

lemma separated_nth_even: "i < length ys \<Longrightarrow> separated sep ys ! (2 * i) = ys ! i"
proof (induction sep ys arbitrary: i rule: separated.induct)
  case (3 sep x y ys)
  show ?case
  proof (cases i)
    case 0
    then show ?thesis by simp
  next
    case (Suc j)
    with 3 show ?thesis by simp
  qed
qed simp_all

lemma separated_nth_odd: "Suc i < length ys \<Longrightarrow> separated sep ys ! Suc (2 * i) = sep"
proof (induction sep ys arbitrary: i rule: separated.induct)
  case (3 sep x y ys)
  show ?case
  proof (cases i)
    case 0
    then show ?thesis by simp
  next
    case (Suc j)
    with 3 show ?thesis by simp
  qed
qed simp_all

lemma list_writes_shape:
  "length (list_writes xs) = 2 * length xs - 1 \<and>
   (\<forall>i < length xs. list_writes xs ! (2 * i) = tab @ xs ! i) \<and>
   (\<forall>i. Suc i < length xs \<longrightarrow> list_writes xs ! Suc (2 * i) = '','' @ nl)"
  unfolding list_writes_def
  by (simp add: length_separated separated_nth_even separated_nth_odd)

lemma hex016_two_digits: "length (hex_nat n) = 2 \<Longrightarrow> hex016 n = ''00000000000000'' @ hex_nat n"
proof -
  have "replicate 14 (CHR ''0'') = ''00000000000000''"
    by (simp add: numeral_eq_Suc)
  then show "length (hex_nat n) = 2 \<Longrightarrow> hex016 n = ''00000000000000'' @ hex_nat n"
    by (simp add: hex016_def)
qed

text \<open>
  C7: a list dumper given a non-empty list of \<open>n\<close> strings writes the elements with
  exactly \<open>n - 1\<close> separators \<open>",\n"\<close>, one between each pair of neighbours, and exactly
  one \<open>"\n"\<close> after the last element; this holds for the status list, the protocol list
  and both lists of the feature dumper, and the feature dumper writes nothing at all for
  its second list, not even the newline, when that list is empty.
\<close>

theorem virtio_dump_separators:
  "(statuses st \<noteq> [] \<longrightarrow>
      out (hmp_virtio_dump_status st mon) =
        out mon @ list_writes (statuses st) @ [nl] @
        unknown_line ''statuses'' (has_unknown_statuses st) (unat (unknown_statuses st))) \<and>
   (protocols pcol \<noteq> [] \<longrightarrow>
      out (hmp_virtio_dump_protocols pcol mon) =
        out mon @ list_writes (protocols pcol) @ [nl] @
        unknown_line ''protocols'' (has_unknown_protocols pcol) (unat (unknown_protocols pcol))) \<and>
   (dev_features f \<noteq> [] \<longrightarrow>
      out (hmp_virtio_dump_features f mon) =
        out mon @ list_writes (transports f) @ [nl] @ list_writes (dev_features f) @ [nl] @
        unknown_line ''features'' (has_unknown_dev_features f) (unat (unknown_dev_features f))) \<and>
   (dev_features f = [] \<longrightarrow>
      out (hmp_virtio_dump_features f mon) =
        out mon @ list_writes (transports f) @ [nl] @
        unknown_line ''features'' (has_unknown_dev_features f) (unat (unknown_dev_features f))) \<and>
   (xs \<noteq> [] \<longrightarrow>
      length (list_writes xs) = 2 * length xs - 1 \<and>
      (\<forall>i < length xs. list_writes xs ! (2 * i) = tab @ xs ! i) \<and>
      (\<forall>i. Suc i < length xs \<longrightarrow> list_writes xs ! Suc (2 * i) = '','' @ nl) \<and>
      count_list (list_writes xs) ('','' @ nl) = length xs - 1 \<and>
      count_list (list_writes xs) nl = 0)"
proof -
  have a: "length (list_writes xs) = 2 * length xs - 1 \<and>
      (\<forall>i < length xs. list_writes xs ! (2 * i) = tab @ xs ! i) \<and>
      (\<forall>i. Suc i < length xs \<longrightarrow> list_writes xs ! Suc (2 * i) = '','' @ nl)"
    by (rule list_writes_shape)
  have b: "count_list (list_writes xs) ('','' @ nl) = length xs - 1"
    by (rule list_writes_count_sep)
  have c: "count_list (list_writes xs) nl = 0"
    by (rule list_writes_count_nl)
  show ?thesis
    using a b c by (simp add: dump_status_out dump_protocols_out dump_features_out)
qed

theorem virtio_dump_separators_witness:
  "out (hmp_virtio_dump_status demo_status mon0) =
     [tab @ ''ACKNOWLEDGE'', '','' @ nl, tab @ ''DRIVER'', '','' @ nl, tab @ ''DRIVER_OK'', nl,
      ''  unknown-statuses(0x0000000000000080)'' @ nl] \<and>
   out (hmp_virtio_dump_protocols demo_protocols mon0) = [tab @ ''MQ'', nl] \<and>
   out (hmp_virtio_dump_features demo_features mon0) =
     [tab @ ''ANY_LAYOUT'', '','' @ nl, tab @ ''VERSION_1'', nl] \<and>
   out (hmp_virtio_dump_features demo_features2 mon0) =
     [tab @ ''VERSION_1'', nl, tab @ ''CSUM'', '','' @ nl, tab @ ''MAC'', nl] \<and>
   count_list (list_writes (statuses demo_status)) ('','' @ nl) = 2"
proof -
  have "hex_nat 128 = ''80''"
    by (simp add: hex_nat.simps digit_char_def)
  then have h: "hex016 128 = ''0000000000000080''"
    by (simp add: hex016_two_digits)
  show ?thesis
    using virtio_dump_separators [of demo_status mon0 demo_protocols demo_features
            "statuses demo_status"]
          virtio_dump_separators [of demo_status mon0 demo_protocols demo_features2
            "statuses demo_status"]
    by (simp add: demo_status_def demo_protocols_def demo_features_def demo_features2_def
          mon0_def list_writes_def unknown_line_def h)
qed

text \<open>
  C10: given an empty list, each dumper still writes exactly one \<open>"\n"\<close>, a blank line,
  before the optional unknown-bits line: the newline after the (first) list is not guarded
  by the list being non-empty. For the feature dumper this is the newline of the transport
  list; with both of its lists empty the blank line is all it writes before the
  unknown-bits line.
\<close>

theorem virtio_dump_empty_list:
  "(statuses st = [] \<longrightarrow>
      out (hmp_virtio_dump_status st mon) =
        out mon @ [nl] @
        unknown_line ''statuses'' (has_unknown_statuses st) (unat (unknown_statuses st))) \<and>
   (protocols pcol = [] \<longrightarrow>
      out (hmp_virtio_dump_protocols pcol mon) =
        out mon @ [nl] @
        unknown_line ''protocols'' (has_unknown_protocols pcol) (unat (unknown_protocols pcol))) \<and>
   (transports f = [] \<longrightarrow>
      out (hmp_virtio_dump_features f mon) =
        out mon @ [nl] @
        (if dev_features f = [] then [] else list_writes (dev_features f) @ [nl]) @
        unknown_line ''features'' (has_unknown_dev_features f) (unat (unknown_dev_features f))) \<and>
   (transports f = [] \<and> dev_features f = [] \<longrightarrow>
      out (hmp_virtio_dump_features f mon) =
        out mon @ [nl] @
        unknown_line ''features'' (has_unknown_dev_features f) (unat (unknown_dev_features f)))"
  by (simp add: dump_status_out dump_protocols_out dump_features_out list_writes_def)

theorem virtio_dump_empty_list_witness:
  "out (hmp_virtio_dump_status empty_status mon0) =
     [nl, ''  unknown-statuses(0x00000000000000ff)'' @ nl] \<and>
   out (hmp_virtio_dump_protocols empty_protocols mon0) = [nl] \<and>
   out (hmp_virtio_dump_features empty_features mon0) = [nl]"
proof -
  have "hex_nat 255 = ''ff''"
    by (simp add: hex_nat.simps digit_char_def)
  then have h: "hex016 255 = ''00000000000000ff''"
    by (simp add: hex016_two_digits)
  show ?thesis
    using virtio_dump_empty_list [of empty_status mon0 empty_protocols empty_features]
    by (simp add: empty_status_def empty_protocols_def empty_features_def mon0_def
          unknown_line_def h)
qed

subsection \<open>Schema-value formatter\<close>

lemma smod_zero_iff_dvd: "(k::int) smod l = 0 \<longleftrightarrow> l dvd k"
  by (cases "k = 0") (simp_all add: smod_int_alt_def mod_eq_0_iff_dvd sgn_if)

lemma unit_letter_Some_iff:
  "unit_letter v \<noteq> None \<longleftrightarrow>
     has_unit v \<and> (sv_unit v = STATS_UNIT_SECONDS \<or> sv_unit v = STATS_UNIT_BYTES)"
  by (simp add: unit_letter_def)

lemma si_branch_iff:
  "si_branch v \<longleftrightarrow>
     has_unit v \<and> (sv_unit v = STATS_UNIT_SECONDS \<or> sv_unit v = STATS_UNIT_BYTES) \<and>
     base v = 10 \<and> - 18 \<le> exponent v \<and> exponent v \<le> 18 \<and> 3 dvd exponent v"
  unfolding si_branch_def unit_letter_Some_iff smod_zero_iff_dvd by blast

lemma iec_branch_iff:
  "iec_branch v \<longleftrightarrow>
     has_unit v \<and> (sv_unit v = STATS_UNIT_SECONDS \<or> sv_unit v = STATS_UNIT_BYTES) \<and>
     base v = 2 \<and> 0 \<le> exponent v \<and> exponent v \<le> 60 \<and> 10 dvd exponent v"
  unfolding iec_branch_def unit_letter_Some_iff smod_zero_iff_dvd by blast

lemma schema_value_first_write:
  "out (print_stats_schema_value e v mon) ! length (out mon) =
      ''    '' @ sv_name v @ '' ('' @ StatsType_str e (sv_type v) @
      (if has_unit v \<or> exponent v \<noteq> 0 then '', '' else [])"
  by (cases "si_branch v"; cases "iec_branch v"; cases "exponent v = 0")
     (simp_all add: print_stats_schema_value_def Let_def nth_append)

text \<open>The whole text of an entry, by the arm of the \<^verbatim>\<open>if\<close> chain that is taken.\<close>

lemma schema_value_text_si:
  assumes "si_branch v"
  shows "monitor_text (print_stats_schema_value e v mon) =
     monitor_text mon @ ''    '' @ sv_name v @ '' ('' @ StatsType_str e (sv_type v) @ '', '' @
     si_prefix e (exponent v) @ (if sv_unit v = STATS_UNIT_SECONDS then ''s'' else ''B'') @
     bucket_text v @ '')''"
proof -
  from assms have u: "has_unit v" "sv_unit v = STATS_UNIT_SECONDS \<or> sv_unit v = STATS_UNIT_BYTES"
    by (simp_all add: si_branch_iff)
  from u(2) show ?thesis
    using assms u(1)
    by (auto simp add: print_stats_schema_value_def Let_def bucket_text_def unit_letter_def
          fmt_d_def)
qed

lemma schema_value_text_iec:
  assumes "\<not> si_branch v" "iec_branch v"
  shows "monitor_text (print_stats_schema_value e v mon) =
     monitor_text mon @ ''    '' @ sv_name v @ '' ('' @ StatsType_str e (sv_type v) @ '', '' @
     iec_binary_prefix e (exponent v) @ (if sv_unit v = STATS_UNIT_SECONDS then ''s'' else ''B'') @
     bucket_text v @ '')''"
proof -
  from assms have u: "has_unit v" "sv_unit v = STATS_UNIT_SECONDS \<or> sv_unit v = STATS_UNIT_BYTES"
    by (simp_all add: iec_branch_iff)
  from u(2) show ?thesis
    using assms u(1)
    by (auto simp add: print_stats_schema_value_def Let_def bucket_text_def unit_letter_def
          fmt_d_def)
qed

lemma schema_value_text_exponential:
  assumes "\<not> si_branch v" "\<not> iec_branch v" "exponent v \<noteq> 0"
  shows "monitor_text (print_stats_schema_value e v mon) =
     monitor_text mon @ ''    '' @ sv_name v @ '' ('' @ StatsType_str e (sv_type v) @ '', '' @
     ''* '' @ dec (base v) @ ''^'' @ dec (exponent v) @
     (if has_unit v then '' '' @ StatsUnit_str e (sv_unit v) else []) @
     bucket_text v @ '')''"
  using assms
  by (simp add: print_stats_schema_value_def Let_def bucket_text_def fmt_d_def)

lemma schema_value_text_unit:
  assumes "\<not> si_branch v" "\<not> iec_branch v" "exponent v = 0" "has_unit v"
  shows "monitor_text (print_stats_schema_value e v mon) =
     monitor_text mon @ ''    '' @ sv_name v @ '' ('' @ StatsType_str e (sv_type v) @ '', '' @
     (if sv_unit v = STATS_UNIT_SECONDS then ''s''
      else if sv_unit v = STATS_UNIT_BYTES then ''B'' else StatsUnit_str e (sv_unit v)) @
     bucket_text v @ '')''"
  using assms
  by (simp add: print_stats_schema_value_def Let_def bucket_text_def unit_letter_def fmt_d_def)

lemma schema_value_text_plain:
  assumes "\<not> has_unit v" "exponent v = 0"
  shows "monitor_text (print_stats_schema_value e v mon) =
     monitor_text mon @ ''    '' @ sv_name v @ '' ('' @ StatsType_str e (sv_type v) @
     bucket_text v @ '')''"
proof -
  from assms(1) have "\<not> si_branch v" "\<not> iec_branch v"
    by (simp_all add: si_branch_iff iec_branch_iff)
  with assms show ?thesis
    by (simp add: print_stats_schema_value_def Let_def bucket_text_def fmt_d_def)
qed

lemma schema_value_exponent_zero:
  assumes "has_unit v" "exponent v = 0" "si_prefix e 0 = []" "iec_binary_prefix e 0 = []"
  shows "monitor_text (print_stats_schema_value e v mon) =
        monitor_text mon @ ''    '' @ sv_name v @ '' ('' @ StatsType_str e (sv_type v) @ '', '' @
        (if sv_unit v = STATS_UNIT_SECONDS then ''s''
         else if sv_unit v = STATS_UNIT_BYTES then ''B'' else StatsUnit_str e (sv_unit v)) @
        bucket_text v @ '')''"
proof (cases "si_branch v")
  case True
  from schema_value_text_si [OF True, of e mon] True assms show ?thesis
    by (auto simp add: si_branch_iff)
next
  case False
  show ?thesis
  proof (cases "iec_branch v")
    case True
    from schema_value_text_iec [OF False True, of e mon] True assms show ?thesis
      by (auto simp add: iec_branch_iff)
  next
    case f: False
    from schema_value_text_unit [OF False f assms(2,1), of e mon] show ?thesis .
  qed
qed

text \<open>
  C5: the formatter emits the separator \<open>", "\<close> after the type name if and only if the
  entry has a unit or its exponent is non-zero: the first write, name and type, ends in the
  separator exactly then, and an entry with neither prints nothing between the type and
  the bucket tail or the closing bracket. With a unit and exponent 0 the text after the
  separator is just the unit letter (\<open>s\<close> or \<open>B\<close>) or, for any other unit, the unit's name
  (the prefix tables give the empty prefix at exponent 0). With a non-zero exponent that
  meets neither the SI condition (base 10, exponent in [-18, 18], multiple of 3) nor the
  IEC condition (base 2, exponent in [0, 60], multiple of 10), exponent 7 for one, the text
  is \<open>* base^exponent\<close>, no unit letter, then a space and the unit's name when there is a
  unit. The remaining conjuncts give the whole text in every other case, so that the text
  of every entry is determined: a unit letter with the SI or the IEC condition met prints
  the prefix and the letter; a non-zero exponent without a unit letter prints the
  exponential form; a unit at exponent 0 outside the two prefix arms prints the letter or
  the name.
\<close>

theorem schema_value_suffix:
  "out (print_stats_schema_value e v mon) ! length (out mon) =
      ''    '' @ sv_name v @ '' ('' @ StatsType_str e (sv_type v) @
      (if has_unit v \<or> exponent v \<noteq> 0 then '', '' else []) \<and>
   (\<not> has_unit v \<and> exponent v = 0 \<longrightarrow>
      monitor_text (print_stats_schema_value e v mon) =
        monitor_text mon @ ''    '' @ sv_name v @ '' ('' @ StatsType_str e (sv_type v) @
        bucket_text v @ '')'') \<and>
   (has_unit v \<and> exponent v = 0 \<and> si_prefix e 0 = [] \<and> iec_binary_prefix e 0 = [] \<longrightarrow>
      monitor_text (print_stats_schema_value e v mon) =
        monitor_text mon @ ''    '' @ sv_name v @ '' ('' @ StatsType_str e (sv_type v) @ '', '' @
        (if sv_unit v = STATS_UNIT_SECONDS then ''s''
         else if sv_unit v = STATS_UNIT_BYTES then ''B'' else StatsUnit_str e (sv_unit v)) @
        bucket_text v @ '')'') \<and>
   (exponent v \<noteq> 0 \<and>
    \<not> (base v = 10 \<and> - 18 \<le> exponent v \<and> exponent v \<le> 18 \<and> 3 dvd exponent v) \<and>
    \<not> (base v = 2 \<and> 0 \<le> exponent v \<and> exponent v \<le> 60 \<and> 10 dvd exponent v) \<longrightarrow>
      monitor_text (print_stats_schema_value e v mon) =
        monitor_text mon @ ''    '' @ sv_name v @ '' ('' @ StatsType_str e (sv_type v) @ '', '' @
        ''* '' @ dec (base v) @ ''^'' @ dec (exponent v) @
        (if has_unit v then '' '' @ StatsUnit_str e (sv_unit v) else []) @
        bucket_text v @ '')'') \<and>
   (has_unit v \<and> (sv_unit v = STATS_UNIT_SECONDS \<or> sv_unit v = STATS_UNIT_BYTES) \<and>
    base v = 10 \<and> - 18 \<le> exponent v \<and> exponent v \<le> 18 \<and> 3 dvd exponent v \<longrightarrow>
      monitor_text (print_stats_schema_value e v mon) =
        monitor_text mon @ ''    '' @ sv_name v @ '' ('' @ StatsType_str e (sv_type v) @ '', '' @
        si_prefix e (exponent v) @ (if sv_unit v = STATS_UNIT_SECONDS then ''s'' else ''B'') @
        bucket_text v @ '')'') \<and>
   (has_unit v \<and> (sv_unit v = STATS_UNIT_SECONDS \<or> sv_unit v = STATS_UNIT_BYTES) \<and>
    base v = 2 \<and> 0 \<le> exponent v \<and> exponent v \<le> 60 \<and> 10 dvd exponent v \<longrightarrow>
      monitor_text (print_stats_schema_value e v mon) =
        monitor_text mon @ ''    '' @ sv_name v @ '' ('' @ StatsType_str e (sv_type v) @ '', '' @
        iec_binary_prefix e (exponent v) @
        (if sv_unit v = STATS_UNIT_SECONDS then ''s'' else ''B'') @
        bucket_text v @ '')'') \<and>
   (exponent v \<noteq> 0 \<and>
    \<not> (has_unit v \<and> (sv_unit v = STATS_UNIT_SECONDS \<or> sv_unit v = STATS_UNIT_BYTES)) \<longrightarrow>
      monitor_text (print_stats_schema_value e v mon) =
        monitor_text mon @ ''    '' @ sv_name v @ '' ('' @ StatsType_str e (sv_type v) @ '', '' @
        ''* '' @ dec (base v) @ ''^'' @ dec (exponent v) @
        (if has_unit v then '' '' @ StatsUnit_str e (sv_unit v) else []) @
        bucket_text v @ '')'') \<and>
   (has_unit v \<and> exponent v = 0 \<and>
    \<not> ((sv_unit v = STATS_UNIT_SECONDS \<or> sv_unit v = STATS_UNIT_BYTES) \<and>
       (base v = 10 \<or> base v = 2)) \<longrightarrow>
      monitor_text (print_stats_schema_value e v mon) =
        monitor_text mon @ ''    '' @ sv_name v @ '' ('' @ StatsType_str e (sv_type v) @ '', '' @
        (if sv_unit v = STATS_UNIT_SECONDS then ''s''
         else if sv_unit v = STATS_UNIT_BYTES then ''B'' else StatsUnit_str e (sv_unit v)) @
        bucket_text v @ '')'')"
proof (intro conjI impI)
  show "out (print_stats_schema_value e v mon) ! length (out mon) =
      ''    '' @ sv_name v @ '' ('' @ StatsType_str e (sv_type v) @
      (if has_unit v \<or> exponent v \<noteq> 0 then '', '' else [])"
    by (rule schema_value_first_write)
next
  assume "\<not> has_unit v \<and> exponent v = 0"
  then show "monitor_text (print_stats_schema_value e v mon) =
        monitor_text mon @ ''    '' @ sv_name v @ '' ('' @ StatsType_str e (sv_type v) @
        bucket_text v @ '')''"
    by (simp add: schema_value_text_plain)
next
  assume "has_unit v \<and> exponent v = 0 \<and> si_prefix e 0 = [] \<and> iec_binary_prefix e 0 = []"
  then show "monitor_text (print_stats_schema_value e v mon) =
        monitor_text mon @ ''    '' @ sv_name v @ '' ('' @ StatsType_str e (sv_type v) @ '', '' @
        (if sv_unit v = STATS_UNIT_SECONDS then ''s''
         else if sv_unit v = STATS_UNIT_BYTES then ''B'' else StatsUnit_str e (sv_unit v)) @
        bucket_text v @ '')''"
    by (intro schema_value_exponent_zero) simp_all
next
  assume a: "exponent v \<noteq> 0 \<and>
    \<not> (base v = 10 \<and> - 18 \<le> exponent v \<and> exponent v \<le> 18 \<and> 3 dvd exponent v) \<and>
    \<not> (base v = 2 \<and> 0 \<le> exponent v \<and> exponent v \<le> 60 \<and> 10 dvd exponent v)"
  then have "\<not> si_branch v" "\<not> iec_branch v" "exponent v \<noteq> 0"
    unfolding si_branch_iff iec_branch_iff by blast+
  then show "monitor_text (print_stats_schema_value e v mon) =
        monitor_text mon @ ''    '' @ sv_name v @ '' ('' @ StatsType_str e (sv_type v) @ '', '' @
        ''* '' @ dec (base v) @ ''^'' @ dec (exponent v) @
        (if has_unit v then '' '' @ StatsUnit_str e (sv_unit v) else []) @
        bucket_text v @ '')''"
    by (rule schema_value_text_exponential)
next
  assume "has_unit v \<and> (sv_unit v = STATS_UNIT_SECONDS \<or> sv_unit v = STATS_UNIT_BYTES) \<and>
    base v = 10 \<and> - 18 \<le> exponent v \<and> exponent v \<le> 18 \<and> 3 dvd exponent v"
  then have "si_branch v"
    unfolding si_branch_iff by blast
  then show "monitor_text (print_stats_schema_value e v mon) =
        monitor_text mon @ ''    '' @ sv_name v @ '' ('' @ StatsType_str e (sv_type v) @ '', '' @
        si_prefix e (exponent v) @ (if sv_unit v = STATS_UNIT_SECONDS then ''s'' else ''B'') @
        bucket_text v @ '')''"
    by (rule schema_value_text_si)
next
  assume a: "has_unit v \<and> (sv_unit v = STATS_UNIT_SECONDS \<or> sv_unit v = STATS_UNIT_BYTES) \<and>
    base v = 2 \<and> 0 \<le> exponent v \<and> exponent v \<le> 60 \<and> 10 dvd exponent v"
  then have "iec_branch v"
    unfolding iec_branch_iff by blast
  moreover from a have "\<not> si_branch v"
    by (simp add: si_branch_iff)
  ultimately show "monitor_text (print_stats_schema_value e v mon) =
        monitor_text mon @ ''    '' @ sv_name v @ '' ('' @ StatsType_str e (sv_type v) @ '', '' @
        iec_binary_prefix e (exponent v) @
        (if sv_unit v = STATS_UNIT_SECONDS then ''s'' else ''B'') @
        bucket_text v @ '')''"
    by (intro schema_value_text_iec)
next
  assume a: "exponent v \<noteq> 0 \<and>
    \<not> (has_unit v \<and> (sv_unit v = STATS_UNIT_SECONDS \<or> sv_unit v = STATS_UNIT_BYTES))"
  then have "\<not> si_branch v" "\<not> iec_branch v" "exponent v \<noteq> 0"
    unfolding si_branch_iff iec_branch_iff by blast+
  then show "monitor_text (print_stats_schema_value e v mon) =
        monitor_text mon @ ''    '' @ sv_name v @ '' ('' @ StatsType_str e (sv_type v) @ '', '' @
        ''* '' @ dec (base v) @ ''^'' @ dec (exponent v) @
        (if has_unit v then '' '' @ StatsUnit_str e (sv_unit v) else []) @
        bucket_text v @ '')''"
    by (rule schema_value_text_exponential)
next
  assume a: "has_unit v \<and> exponent v = 0 \<and>
    \<not> ((sv_unit v = STATS_UNIT_SECONDS \<or> sv_unit v = STATS_UNIT_BYTES) \<and>
       (base v = 10 \<or> base v = 2))"
  then have "\<not> si_branch v" "\<not> iec_branch v" "exponent v = 0" "has_unit v"
    unfolding si_branch_iff iec_branch_iff by blast+
  then show "monitor_text (print_stats_schema_value e v mon) =
        monitor_text mon @ ''    '' @ sv_name v @ '' ('' @ StatsType_str e (sv_type v) @ '', '' @
        (if sv_unit v = STATS_UNIT_SECONDS then ''s''
         else if sv_unit v = STATS_UNIT_BYTES then ''B'' else StatsUnit_str e (sv_unit v)) @
        bucket_text v @ '')''"
    by (rule schema_value_text_unit)
qed

theorem schema_value_suffix_witness:
  "out (print_stats_schema_value demo_env demo_value_plain mon0) ! 0 = ''    exits (cumulative'' \<and>
   monitor_text (print_stats_schema_value demo_env demo_value_plain mon0) =
     ''    exits (cumulative)'' \<and>
   monitor_text (print_stats_schema_value demo_env demo_value_big mon0) =
     ''    wait (linear-histogram, bucket size=-1)'' \<and>
   out (print_stats_schema_value demo_env demo_value_bytes mon0) ! 0 = ''    size (cumulative, '' \<and>
   monitor_text (print_stats_schema_value demo_env demo_value_bytes mon0) =
     ''    size (cumulative, B)'' \<and>
   monitor_text (print_stats_schema_value demo_env demo_value_exp7 mon0) =
     ''    halt_wait (linear-histogram, * 10^7 seconds, bucket size=4)'' \<and>
   monitor_text (print_stats_schema_value demo_env demo_value_ns mon0) =
     ''    halt_poll_success_ns (cumulative, ns)''"
proof -
  have d: "dec 10 = ''10''" "dec 7 = ''7''" "dec 4 = ''4''" "dec (- 1) = ''-1''"
    by (simp_all add: dec_def dec_nat.simps digit_char_def)
  have m: "monitor_text mon0 = []" "out mon0 = []"
    by (simp_all add: monitor_text_def mon0_def)
  have p: "si_prefix demo_env 0 = []" "iec_binary_prefix demo_env 0 = []"
    by (simp_all add: demo_env_def)
  have a: "out (print_stats_schema_value demo_env demo_value_plain mon0) ! 0 =
      ''    exits (cumulative'' \<and>
    monitor_text (print_stats_schema_value demo_env demo_value_plain mon0) =
      ''    exits (cumulative)''"
    using schema_value_suffix [of demo_env demo_value_plain mon0]
    by (simp add: m demo_value_plain_def bucket_text_def) (simp add: demo_env_def)
  have g: "monitor_text (print_stats_schema_value demo_env demo_value_big mon0) =
     ''    wait (linear-histogram, bucket size=-1)''"
    using schema_value_suffix [of demo_env demo_value_big mon0]
    by (simp add: m d demo_value_big_def bucket_text_def) (simp add: demo_env_def)
  have b: "out (print_stats_schema_value demo_env demo_value_bytes mon0) ! 0 =
      ''    size (cumulative, '' \<and>
    monitor_text (print_stats_schema_value demo_env demo_value_bytes mon0) =
      ''    size (cumulative, B)''"
    using schema_value_suffix [of demo_env demo_value_bytes mon0] p
    by (simp add: m demo_value_bytes_def bucket_text_def) (simp add: demo_env_def)
  have c: "monitor_text (print_stats_schema_value demo_env demo_value_exp7 mon0) =
     ''    halt_wait (linear-histogram, * 10^7 seconds, bucket size=4)''"
    using schema_value_suffix [of demo_env demo_value_exp7 mon0]
    by (simp add: m d demo_value_exp7_def bucket_text_def) (simp add: demo_env_def)
  have n: "monitor_text (print_stats_schema_value demo_env demo_value_ns mon0) =
     ''    halt_poll_success_ns (cumulative, ns)''"
    using schema_value_suffix [of demo_env demo_value_ns mon0]
    by (simp add: m demo_value_ns_def bucket_text_def) (simp add: demo_env_def)
  show ?thesis
    using a g b c n by simp
qed
subsection \<open>Stats filter builder\<close>

lemma provider_loop_eq:
  "foldl (\<lambda>request_list provider_idx.
            if P provider_idx then f provider_idx # request_list else request_list) acc [0 ..< n]
   = map f (rev (filter P [0 ..< n])) @ acc"
  by (induction n) simp_all

text \<open>
  The builder returns exactly when it does not call the path resolution or that call
  returns.
\<close>

lemma stats_filter_returns_iff:
  "(\<exists>f. stats_filter e target_arg names_arg cpu_index provider = Returns f) \<longleftrightarrow>
     (target_arg = STATS_TARGET_VCPU \<longrightarrow>
        (\<exists>s. object_get_canonical_path e (qemu_get_cpu e cpu_index) = Returns s))"
proof (cases target_arg)
  case STATS_TARGET_VCPU
  then show ?thesis
    by (cases "object_get_canonical_path e (qemu_get_cpu e cpu_index)")
       (simp_all add: stats_filter_def Let_def)
qed (simp_all add: stats_filter_def Let_def)



lemma stats_filter_has_providers:
  assumes "stats_filter e target_arg names_arg cpu_index provider = Returns f"
  shows "has_providers f \<longleftrightarrow> \<not> (names_arg = None \<and> provider = STATS_PROVIDER__MAX e)"
proof (cases target_arg)
  case STATS_TARGET_VCPU
  with assms show ?thesis
    by (cases "object_get_canonical_path e (qemu_get_cpu e cpu_index)")
       (auto simp add: stats_filter_def Let_def split: if_splits)
qed (use assms in \<open>auto simp add: stats_filter_def Let_def split: if_splits\<close>)

lemma stats_filter_bare:
  assumes "stats_filter e target_arg names_arg cpu_index provider = Returns f"
    and "names_arg = None" "provider = STATS_PROVIDER__MAX e"
  shows "providers f = []"
proof (cases target_arg)
  case STATS_TARGET_VCPU
  with assms show ?thesis
    by (cases "object_get_canonical_path e (qemu_get_cpu e cpu_index)")
       (auto simp add: stats_filter_def Let_def split: if_splits)
qed (use assms in \<open>auto simp add: stats_filter_def Let_def split: if_splits\<close>)

lemma stats_filter_providers:
  assumes "stats_filter e target_arg names_arg cpu_index provider = Returns f"
    and "\<not> (names_arg = None \<and> provider = STATS_PROVIDER__MAX e)"
  shows "providers f =
     map (stats_request names_arg)
       (rev (filter (\<lambda>i. provider = STATS_PROVIDER__MAX e \<or> provider = i)
          [0 ..< STATS_PROVIDER__MAX e]))"
proof (cases target_arg)
  case STATS_TARGET_VCPU
  with assms show ?thesis
    by (cases "object_get_canonical_path e (qemu_get_cpu e cpu_index)")
       (auto simp add: stats_filter_def Let_def provider_loop_eq split: if_splits)
qed (use assms in \<open>auto simp add: stats_filter_def Let_def provider_loop_eq split: if_splits\<close>)

lemma rq_provider_request [simp]: "rq_provider (stats_request names_arg i) = i"
  by (simp add: stats_request_def Let_def)

lemma kept_set:
  "provider \<le> n \<Longrightarrow>
   set (filter (\<lambda>i. provider = n \<or> provider = i) [0 ..< n]) =
     (if provider = n then {0 ..< n} else {provider})"
  by auto

lemma info_stats_exit_some:
  "info_stats_exit (Some err) mon =
     mon\<lparr>out := out mon @ [error_get_pretty err @ nl], freed := freed mon @ [err]\<rparr>"
  by (simp add: info_stats_exit_def info_stats_exit_no_print_def error_free_def monitor_printf_def)

lemma info_stats_query_error:
  assumes "StatsTarget_parse m target_str = Inr target_arg"
    and "(case provider_str of None \<Rightarrow> Inr (STATS_PROVIDER__MAX e)
          | Some ps \<Rightarrow> StatsProvider_parse m ps) = Inr provider"
    and "qmp_query_stats_schemas m (provider_str \<noteq> None) provider = Inr schema"
    and "target_arg = STATS_TARGET_VM \<or> target_arg = STATS_TARGET_VCPU"
    and "stats_filter e target_arg names_arg
           (if target_arg = STATS_TARGET_VM then - 1 else mon_cpu_index mon) provider =
         Returns filter_arg"
    and "qmp_query_stats m filter_arg = Inl err"
  shows "hmp_info_stats e m target_str provider_str names_arg mon =
     (Returned, mon\<lparr>out := out mon @ [error_get_pretty err @ nl], freed := freed mon @ [err]\<rparr>)"
  using assms by (auto simp add: hmp_info_stats_def info_stats_exit_some)


text \<open>
  C2: the builder returns for every target but VCPU, and for VCPU when the path
  resolution returns. The filter it returns, for every target, name-selector and
  provider-selector, is this: with the name-selector absent and the provider-selector
  absent (the sentinel \<open>STATS_PROVIDER__MAX\<close>) has-providers is unset and there is no
  request list. Otherwise has-providers is set and the list holds exactly one request for
  each provider the selector keeps: every provider when the selector is absent, the
  selected one alone otherwise. Each request has its names unset when the name-selector is
  \<open>"*"\<close> or absent, and the comma-split of the name-selector otherwise. The
  provider-selector is a value of the enum: a provider or the sentinel.
\<close>

theorem stats_filter_requests:
  assumes "provider \<le> STATS_PROVIDER__MAX e"
  shows
  "((\<exists>f. stats_filter e target_arg names_arg cpu_index provider = Returns f) \<longleftrightarrow>
      (target_arg = STATS_TARGET_VCPU \<longrightarrow>
         (\<exists>s. object_get_canonical_path e (qemu_get_cpu e cpu_index) = Returns s))) \<and>
   (\<forall>f. stats_filter e target_arg names_arg cpu_index provider = Returns f \<longrightarrow>
      (names_arg = None \<and> provider = STATS_PROVIDER__MAX e \<longrightarrow>
         \<not> has_providers f \<and> providers f = []) \<and>
      (\<not> (names_arg = None \<and> provider = STATS_PROVIDER__MAX e) \<longrightarrow>
         has_providers f \<and>
         distinct (map rq_provider (providers f)) \<and>
         set (map rq_provider (providers f)) =
           (if provider = STATS_PROVIDER__MAX e then {0 ..< STATS_PROVIDER__MAX e}
            else {provider}) \<and>
         (\<forall>r \<in> set (providers f).
            has_names r = (names_arg \<noteq> None \<and> names_arg \<noteq> Some ''*'') \<and>
            names r = (if names_arg = None \<or> names_arg = Some ''*'' then []
                       else hmp_split_at_comma names_arg))))"
proof (intro conjI allI impI)
  show "(\<exists>f. stats_filter e target_arg names_arg cpu_index provider = Returns f) \<longleftrightarrow>
      (target_arg = STATS_TARGET_VCPU \<longrightarrow>
         (\<exists>s. object_get_canonical_path e (qemu_get_cpu e cpu_index) = Returns s))"
    by (rule stats_filter_returns_iff)
next
  fix f
  assume r: "stats_filter e target_arg names_arg cpu_index provider = Returns f"
    and "names_arg = None \<and> provider = STATS_PROVIDER__MAX e"
  then show "\<not> has_providers f"
    by (simp add: stats_filter_has_providers [OF r])
next
  fix f
  assume r: "stats_filter e target_arg names_arg cpu_index provider = Returns f"
    and "names_arg = None \<and> provider = STATS_PROVIDER__MAX e"
  then show "providers f = []"
    by (simp add: stats_filter_bare [OF r])
next
  fix f
  assume r: "stats_filter e target_arg names_arg cpu_index provider = Returns f"
    and h: "\<not> (names_arg = None \<and> provider = STATS_PROVIDER__MAX e)"
  note p = stats_filter_providers [OF r h]
  show "has_providers f"
    using h by (simp add: stats_filter_has_providers [OF r])
  show "distinct (map rq_provider (providers f))"
    unfolding p by (simp add: comp_def)
  show "set (map rq_provider (providers f)) =
        (if provider = STATS_PROVIDER__MAX e then {0 ..< STATS_PROVIDER__MAX e}
         else {provider})"
    unfolding p using kept_set [OF assms] by (simp add: comp_def)
  show "\<forall>r \<in> set (providers f).
         has_names r = (names_arg \<noteq> None \<and> names_arg \<noteq> Some ''*'') \<and>
         names r = (if names_arg = None \<or> names_arg = Some ''*'' then []
                    else hmp_split_at_comma names_arg)"
    unfolding p by (auto simp add: stats_request_def Let_def)
qed

theorem stats_filter_requests_witness:
  "stats_filter demo_env STATS_TARGET_VM None (- 1) 2 =
     Returns \<lparr>target = STATS_TARGET_VM, has_vcpus = False, vcpus = [], has_providers = False,
       providers = []\<rparr> \<and>
   stats_filter demo_env STATS_TARGET_VM (Some ''*'') (- 1) 2 =
     Returns \<lparr>target = STATS_TARGET_VM, has_vcpus = False, vcpus = [], has_providers = True,
       providers = [\<lparr>rq_provider = 1, has_names = False, names = []\<rparr>,
                    \<lparr>rq_provider = 0, has_names = False, names = []\<rparr>]\<rparr> \<and>
   set (map rq_provider
     (providers
        \<lparr>target = STATS_TARGET_VM, has_vcpus = False, vcpus = [], has_providers = True,
          providers = [\<lparr>rq_provider = 1, has_names = False, names = []\<rparr>,
                       \<lparr>rq_provider = 0, has_names = False, names = []\<rparr>]\<rparr>)) =
     {0 ..< STATS_PROVIDER__MAX demo_env} \<and>
   stats_filter demo_env STATS_TARGET_VM (Some ''exits,halt_exits'') (- 1) 0 =
     Returns \<lparr>target = STATS_TARGET_VM, has_vcpus = False, vcpus = [], has_providers = True,
       providers = [\<lparr>rq_provider = 0, has_names = True,
                      names = [''exits'', ''halt_exits'']\<rparr>]\<rparr>"
proof -
  have mx: "STATS_PROVIDER__MAX demo_env = Suc (Suc 0)"
    by (simp add: demo_env_def)
  have le: "2 \<le> STATS_PROVIDER__MAX demo_env"
    by (simp add: mx)
  have s: "hmp_split_at_comma (Some ''exits,halt_exits'') = [''exits'', ''halt_exits'']"
    by (simp add: hmp_split_at_comma_def g_strsplit_comma_def)
  have a: "stats_filter demo_env STATS_TARGET_VM None (- 1) 2 =
     Returns \<lparr>target = STATS_TARGET_VM, has_vcpus = False, vcpus = [], has_providers = False,
       providers = []\<rparr>"
    by (simp add: stats_filter_def Let_def mx)
  have b: "stats_filter demo_env STATS_TARGET_VM (Some ''*'') (- 1) 2 =
     Returns \<lparr>target = STATS_TARGET_VM, has_vcpus = False, vcpus = [], has_providers = True,
       providers = [\<lparr>rq_provider = 1, has_names = False, names = []\<rparr>,
                    \<lparr>rq_provider = 0, has_names = False, names = []\<rparr>]\<rparr>"
    by (simp add: stats_filter_def stats_request_def Let_def mx)
  have c: "stats_filter demo_env STATS_TARGET_VM (Some ''exits,halt_exits'') (- 1) 0 =
     Returns \<lparr>target = STATS_TARGET_VM, has_vcpus = False, vcpus = [], has_providers = True,
       providers = [\<lparr>rq_provider = 0, has_names = True,
                      names = [''exits'', ''halt_exits'']\<rparr>]\<rparr>"
    by (simp add: stats_filter_def stats_request_def Let_def mx s)
  have n: "\<not> (Some ''*'' = None \<and> 2 = STATS_PROVIDER__MAX demo_env)"
    by simp
  have eq: "2 = STATS_PROVIDER__MAX demo_env"
    by (simp add: mx)
  note k = stats_filter_requests [where provider = 2 and e = demo_env and
      target_arg = STATS_TARGET_VM and names_arg = "Some ''*''" and cpu_index = "- 1",
      OF le, THEN conjunct2, THEN spec, THEN mp, OF b, THEN conjunct2, THEN mp, OF n,
      THEN conjunct2, THEN conjunct2, THEN conjunct1]
  have w: "set (map rq_provider
     (providers
        \<lparr>target = STATS_TARGET_VM, has_vcpus = False, vcpus = [], has_providers = True,
          providers = [\<lparr>rq_provider = 1, has_names = False, names = []\<rparr>,
                       \<lparr>rq_provider = 0, has_names = False, names = []\<rparr>]\<rparr>)) =
     {0 ..< STATS_PROVIDER__MAX demo_env}"
    using k unfolding if_P [OF eq] .
  show ?thesis
    by (intro conjI) (rule a b w c)+
qed

text \<open>
  C9: when the builder attaches requests, the list of the filter it returns is in reverse
  enumeration order: each request is prepended, so the list is the kept providers from the
  highest index down to the lowest, provider 0 last when it is kept.
\<close>

theorem stats_filter_reverse_order:
  "((\<exists>f. stats_filter e target_arg names_arg cpu_index provider = Returns f) \<longleftrightarrow>
      (target_arg = STATS_TARGET_VCPU \<longrightarrow>
         (\<exists>s. object_get_canonical_path e (qemu_get_cpu e cpu_index) = Returns s))) \<and>
   (\<forall>f. stats_filter e target_arg names_arg cpu_index provider = Returns f \<and>
        \<not> (names_arg = None \<and> provider = STATS_PROVIDER__MAX e) \<longrightarrow>
      providers f =
        map (stats_request names_arg)
          (rev (filter (\<lambda>i. provider = STATS_PROVIDER__MAX e \<or> provider = i)
             [0 ..< STATS_PROVIDER__MAX e])) \<and>
      sorted_wrt (>) (map rq_provider (providers f)))"
proof (intro conjI allI impI)
  show "(\<exists>f. stats_filter e target_arg names_arg cpu_index provider = Returns f) \<longleftrightarrow>
      (target_arg = STATS_TARGET_VCPU \<longrightarrow>
         (\<exists>s. object_get_canonical_path e (qemu_get_cpu e cpu_index) = Returns s))"
    by (rule stats_filter_returns_iff)
next
  fix f
  assume a: "stats_filter e target_arg names_arg cpu_index provider = Returns f \<and>
        \<not> (names_arg = None \<and> provider = STATS_PROVIDER__MAX e)"
  then have p: "providers f =
        map (stats_request names_arg)
          (rev (filter (\<lambda>i. provider = STATS_PROVIDER__MAX e \<or> provider = i)
             [0 ..< STATS_PROVIDER__MAX e]))"
    using stats_filter_providers [of e target_arg names_arg cpu_index provider f] by blast
  then show "providers f =
        map (stats_request names_arg)
          (rev (filter (\<lambda>i. provider = STATS_PROVIDER__MAX e \<or> provider = i)
             [0 ..< STATS_PROVIDER__MAX e]))" .
  have "sorted_wrt (<) (filter (\<lambda>i. provider = STATS_PROVIDER__MAX e \<or> provider = i)
          [0 ..< STATS_PROVIDER__MAX e])"
    by (rule sorted_wrt_filter) simp
  then have "sorted_wrt (>) (rev (filter (\<lambda>i. provider = STATS_PROVIDER__MAX e \<or> provider = i)
          [0 ..< STATS_PROVIDER__MAX e]))"
    by (simp add: sorted_wrt_rev)
  then show "sorted_wrt (>) (map rq_provider (providers f))"
    unfolding p by (simp add: comp_def)
qed

theorem stats_filter_reverse_order_witness:
  "stats_filter demo_env STATS_TARGET_VM (Some ''*'') (- 1) 2 =
     Returns \<lparr>target = STATS_TARGET_VM, has_vcpus = False, vcpus = [], has_providers = True,
       providers = [\<lparr>rq_provider = 1, has_names = False, names = []\<rparr>,
                    \<lparr>rq_provider = 0, has_names = False, names = []\<rparr>]\<rparr> \<and>
   sorted_wrt (>) (map rq_provider
     (providers
        \<lparr>target = STATS_TARGET_VM, has_vcpus = False, vcpus = [], has_providers = True,
          providers = [\<lparr>rq_provider = 1, has_names = False, names = []\<rparr>,
                       \<lparr>rq_provider = 0, has_names = False, names = []\<rparr>]\<rparr>))"
proof -
  have mx: "STATS_PROVIDER__MAX demo_env = Suc (Suc 0)"
    by (simp add: demo_env_def)
  have b: "stats_filter demo_env STATS_TARGET_VM (Some ''*'') (- 1) 2 =
     Returns \<lparr>target = STATS_TARGET_VM, has_vcpus = False, vcpus = [], has_providers = True,
       providers = [\<lparr>rq_provider = 1, has_names = False, names = []\<rparr>,
                    \<lparr>rq_provider = 0, has_names = False, names = []\<rparr>]\<rparr>"
    by (simp add: stats_filter_def stats_request_def Let_def mx)
  have n: "\<not> (Some ''*'' = None \<and> 2 = STATS_PROVIDER__MAX demo_env)"
    by simp
  note w = stats_filter_reverse_order [where e = demo_env and
      target_arg = STATS_TARGET_VM and names_arg = "Some ''*''" and cpu_index = "- 1" and
      provider = 2, THEN conjunct2, THEN spec, THEN mp, OF conjI, OF b n, THEN conjunct2]
  show ?thesis
    by (intro conjI) (rule b w)+
qed



subsection \<open>Stats renderer\<close>

lemma schema_value_out:
  "out (print_stats_schema_value e v mon) = out mon @ writes_of (print_stats_schema_value e v)"
  by (cases "si_branch v"; cases "iec_branch v"; cases "exponent v = 0")
     (simp_all add: print_stats_schema_value_def Let_def writes_of_def)

lemma uint64List_out_aux:
  "out (print_uint64List l i mon) =
     out mon @ out (print_uint64List l i \<lparr>out = [], freed = [], mon_cpu_index = 0\<rparr>)"
proof (induction l arbitrary: i mon)
  case Nil
  then show ?case by simp
next
  case (Cons x l)
  show ?case
    by (simp, subst Cons.IH, subst (2) Cons.IH, simp)
qed

lemma stats_value_out:
  "out (print_stats_value sv mon) = out mon @ writes_of (print_stats_value sv)"
proof (cases sv)
  case (QTYPE_QLIST l)
  then show ?thesis
    by (simp add: print_stats_value_def writes_of_def)
       (subst uint64List_out_aux, subst (2) uint64List_out_aux, simp)
qed (simp_all add: print_stats_value_def writes_of_def)

lemma find_schema_entry_subseq:
  "subseq (n # ns) (map sv_name (v # nxt)) \<Longrightarrow>
   \<exists>v' nxt'. find_schema_entry n v nxt = Some (v', nxt') \<and> sv_name v' = n \<and>
     suffix (v' # nxt') (v # nxt) \<and> subseq ns (map sv_name nxt')"
proof (induction nxt arbitrary: v)
  case Nil
  then show ?case by (auto split: if_splits)
next
  case (Cons v2 nxt)
  show ?case
  proof (cases "sv_name v = n")
    case True
    with Cons.prems show ?thesis by auto
  next
    case False
    with Cons.prems have "subseq (n # ns) (map sv_name (v2 # nxt))"
      by (auto split: if_splits)
    from Cons.IH [OF this] obtain v' nxt' where
      f: "find_schema_entry n v2 nxt = Some (v', nxt')" "sv_name v' = n"
         "suffix (v' # nxt') (v2 # nxt)" "subseq ns (map sv_name nxt')"
      by blast
    have "suffix (v' # nxt') (v # v2 # nxt)"
      using f(3) by (rule suffix_ConsI)
    with f False show ?thesis by simp
  qed
qed

lemma suffix_strict_Cons: "suffix c nxt \<Longrightarrow> strict_suffix c (v # nxt)"
proof -
  assume a: "suffix c nxt"
  then have "length c \<le> length nxt" by (rule suffix_length_le)
  then have "c \<noteq> v # nxt" by auto
  with a show ?thesis by (simp add: strict_suffix_def suffix_ConsI)
qed

lemma stats_loop_subseq:
  "subseq (map st_name stats) (map sv_name svl) \<Longrightarrow>
   stats_loop e stats svl mon = (mon', cursors, ex) \<Longrightarrow>
   ex = Rendered_all \<and>
   list_all2 (\<lambda>c s. \<exists>v nxt. c = v # nxt \<and> sv_name v = st_name s) cursors stats \<and>
   (\<forall>c \<in> set cursors. suffix c svl) \<and>
   sorted_wrt (\<lambda>c c'. strict_suffix c' c) cursors \<and>
   out mon' = out mon @ concat (map2 (\<lambda>s c. stat_writes e s (hd c)) stats cursors)"
proof (induction stats arbitrary: svl mon mon' cursors ex)
  case Nil
  then show ?case by simp
next
  case (Cons s rest)
  from Cons.prems(1) obtain v nxt where svl: "svl = v # nxt"
    by (cases svl) auto
  from Cons.prems(1) have "subseq (st_name s # map st_name rest) (map sv_name (v # nxt))"
    by (simp add: svl)
  from find_schema_entry_subseq [OF this] obtain v' nxt' where
    f: "find_schema_entry (st_name s) v nxt = Some (v', nxt')" "sv_name v' = st_name s"
       "suffix (v' # nxt') (v # nxt)" "subseq (map st_name rest) (map sv_name nxt')"
    by blast
  define mon2 where "mon2 = print_stats_value (st_value s) (print_stats_schema_value e v' mon)"
  obtain mon3 tr ex' where r: "stats_loop e rest nxt' mon2 = (mon3, tr, ex')"
    by (cases "stats_loop e rest nxt' mon2") auto
  from Cons.prems(2) have res: "mon' = mon3" "cursors = (v' # nxt') # tr" "ex = ex'"
    by (simp_all add: svl f(1) Let_def mon2_def [symmetric] r)
  from Cons.IH [OF f(4) r] have ih:
    "ex' = Rendered_all"
    "list_all2 (\<lambda>c s. \<exists>v nxt. c = v # nxt \<and> sv_name v = st_name s) tr rest"
    "\<forall>c \<in> set tr. suffix c nxt'"
    "sorted_wrt (\<lambda>c c'. strict_suffix c' c) tr"
    "out mon3 = out mon2 @ concat (map2 (\<lambda>s c. stat_writes e s (hd c)) rest tr)"
    by simp_all
  have s1: "\<forall>c \<in> set tr. strict_suffix c (v' # nxt')"
    using ih(3) by (simp add: suffix_strict_Cons)
  have s2: "\<forall>c \<in> set tr. suffix c svl"
  proof
    fix c assume "c \<in> set tr"
    with ih(3) have "suffix c nxt'" by simp
    then have "suffix c (v' # nxt')" by (rule suffix_ConsI)
    then show "suffix c svl"
      using f(3) unfolding svl by (rule suffix_order.trans)
  qed
  have o: "out mon2 = out mon @ stat_writes e s v'"
    by (simp add: mon2_def stat_writes_def stats_value_out [of _ "print_stats_schema_value e v' mon"]
          schema_value_out [of e v' mon])
  show ?case
    using ih(1,2,4,5) s1 s2 f(2,3) o
    by (simp add: res svl)
qed


lemma strict_suffix_length: "strict_suffix c' c \<Longrightarrow> length c' < length c"
  by (auto simp add: strict_suffix_def suffix_def)

lemma cursor_index_sorted:
  assumes "\<forall>c \<in> set cursors. suffix c svl"
    and "sorted_wrt (\<lambda>c c'. strict_suffix c' c) cursors"
  shows "sorted_wrt (<) (map (cursor_index svl) cursors)"
proof -
  have "sorted_wrt (\<lambda>c c'. cursor_index svl c < cursor_index svl c') cursors"
  proof (rule sorted_wrt_mono_rel [OF _ assms(2)])
    fix c c' assume a: "c \<in> set cursors" "c' \<in> set cursors" "strict_suffix c' c"
    from a(1) assms(1) have "length c \<le> length svl"
      by (simp add: suffix_length_le)
    moreover from a(3) have "length c' < length c"
      by (rule strict_suffix_length)
    ultimately show "cursor_index svl c < cursor_index svl c'"
      by (simp add: cursor_index_def)
  qed
  then show ?thesis by (simp add: sorted_wrt_map)
qed

text \<open>
  C1: let the names of a result's stats be a subsequence, in the same relative order, of
  the names of the schema value-list found for it. Then \<^verbatim>\<open>print_stats_results\<close> neither
  takes the "failed to find schema entry" branch nor reads past the end of the schema; it
  renders every stat, each with a schema entry of the stat's own name, and writes exactly
  the renderings of the stats in order. The schema cursor only moves forward: every cursor
  at which a stat is rendered is a node of the schema list strictly behind the cursors of
  the stats rendered before it, so its index grows by at least one per rendered stat.
\<close>

theorem stats_renderer_subsequence:
  assumes "subseq (map st_name (sr_stats result))
             (map sv_name (find_schema_value_list schema (sr_provider result) target_arg))"
    and "print_stats_results e target_arg show_provider result schema mon = (mon', cursors, ex)"
  shows "ex \<noteq> No_schema_entry \<and> ex \<noteq> Null_deref \<and>
     length cursors = length (sr_stats result) \<and>
     (\<forall>i < length cursors.
        suffix (cursors ! i) (find_schema_value_list schema (sr_provider result) target_arg) \<and>
        (\<exists>v nxt. cursors ! i = v # nxt \<and> sv_name v = st_name (sr_stats result ! i))) \<and>
     sorted_wrt (\<lambda>c c'. strict_suffix c' c) cursors \<and>
     sorted_wrt (<)
       (map (cursor_index (find_schema_value_list schema (sr_provider result) target_arg))
          cursors) \<and>
     (find_schema_value_list schema (sr_provider result) target_arg \<noteq> [] \<longrightarrow>
        ex = Rendered_all \<and>
        out mon' =
          out mon @
          (if show_provider
           then [''provider: '' @ StatsProvider_str e (sr_provider result) @ nl] else []) @
          concat (map2 (\<lambda>s c. stat_writes e s (hd c)) (sr_stats result) cursors))"
proof (cases "find_schema_value_list schema (sr_provider result) target_arg = []")
  case True
  with assms(1) have "sr_stats result = []"
    by (cases "sr_stats result") simp_all
  with True assms(2) show ?thesis
    by (auto simp add: print_stats_results_def Let_def)
next
  case False
  define svl where "svl = find_schema_value_list schema (sr_provider result) target_arg"
  define mon1 where "mon1 = (if show_provider
     then monitor_printf (''provider: '' @ StatsProvider_str e (sr_provider result) @ nl) mon
     else mon)"
  from assms(2) False have l: "stats_loop e (sr_stats result) svl mon1 = (mon', cursors, ex)"
    by (simp add: print_stats_results_def Let_def svl_def mon1_def)
  from assms(1) have sub: "subseq (map st_name (sr_stats result)) (map sv_name svl)"
    by (simp add: svl_def)
  from stats_loop_subseq [OF sub l] have r:
    "ex = Rendered_all"
    "list_all2 (\<lambda>c s. \<exists>v nxt. c = v # nxt \<and> sv_name v = st_name s) cursors (sr_stats result)"
    "\<forall>c \<in> set cursors. suffix c svl"
    "sorted_wrt (\<lambda>c c'. strict_suffix c' c) cursors"
    "out mon' = out mon1 @ concat (map2 (\<lambda>s c. stat_writes e s (hd c)) (sr_stats result) cursors)"
    by simp_all
  have len: "length cursors = length (sr_stats result)"
    using r(2) by (rule list_all2_lengthD)
  have nth: "\<forall>i < length cursors. suffix (cursors ! i) svl \<and>
        (\<exists>v nxt. cursors ! i = v # nxt \<and> sv_name v = st_name (sr_stats result ! i))"
    using r(2,3) by (simp add: list_all2_conv_all_nth)
  have idx: "sorted_wrt (<) (map (cursor_index svl) cursors)"
    using r(3,4) by (rule cursor_index_sorted)
  have o: "out mon1 = out mon @ (if show_provider
           then [''provider: '' @ StatsProvider_str e (sr_provider result) @ nl] else [])"
    by (simp add: mon1_def)
  show ?thesis
    using r(1,4,5) len nth idx o unfolding svl_def by simp
qed

lemma demo_run:
  "print_stats_results demo_env STATS_TARGET_VM True demo_result demo_schema mon0 =
     (\<lparr>out = [''provider: kvm'' @ nl, ''    exits (cumulative'', '')'', '': 12345'' @ nl,
              ''    size (cumulative, '', [], ''B'', '')'', '': '', ''[1]=1 '', ''[2]=2 '', nl],
       freed = [], mon_cpu_index = 0\<rparr>,
      [[demo_value_plain, demo_value_ns, demo_value_bytes], [demo_value_bytes]],
      Rendered_all)"
proof -
  have d: "dec 12345 = ''12345''" "dec 1 = ''1''" "dec 2 = ''2''"
    by (simp_all add: dec_def dec_nat.simps digit_char_def)
  have sv: "sv_name demo_value_plain = ''exits''" "sv_name demo_value_ns = ''halt_poll_success_ns''"
    "sv_name demo_value_bytes = ''size''"
    by (simp_all add: demo_value_plain_def demo_value_ns_def demo_value_bytes_def)
  have p1: "print_stats_schema_value demo_env demo_value_plain m =
     monitor_printf '')'' (monitor_printf ''    exits (cumulative'' m)" for m
    by (simp add: print_stats_schema_value_def Let_def demo_value_plain_def demo_env_def
          si_branch_def iec_branch_def unit_letter_def)
  have p2: "print_stats_schema_value demo_env demo_value_bytes m =
     monitor_printf '')'' (monitor_puts ''B'' (monitor_puts []
       (monitor_printf ''    size (cumulative, '' m)))" for m
    by (simp add: print_stats_schema_value_def Let_def demo_value_bytes_def demo_env_def
          si_branch_def iec_branch_def unit_letter_def)
  show ?thesis
    by (simp add: print_stats_results_def demo_schema_def demo_result_def Let_def sv p1 p2
          print_stats_value_def d mon0_def monitor_printf_def monitor_puts_def)
       (simp add: demo_env_def)
qed


theorem stats_renderer_subsequence_witness:
  "subseq (map st_name (sr_stats demo_result))
     (map sv_name (find_schema_value_list demo_schema (sr_provider demo_result) STATS_TARGET_VM)) \<and>
   snd (snd (print_stats_results demo_env STATS_TARGET_VM True demo_result demo_schema mon0)) =
     Rendered_all \<and>
   map (cursor_index (find_schema_value_list demo_schema (sr_provider demo_result) STATS_TARGET_VM))
     (fst (snd (print_stats_results demo_env STATS_TARGET_VM True demo_result demo_schema mon0))) =
     [0, 2] \<and>
   monitor_text
     (fst (print_stats_results demo_env STATS_TARGET_VM True demo_result demo_schema mon0)) =
     ''provider: kvm'' @ nl @ ''    exits (cumulative): 12345'' @ nl @
     ''    size (cumulative, B): [1]=1 [2]=2 '' @ nl"
proof -
  have sub: "subseq (map st_name (sr_stats demo_result))
     (map sv_name (find_schema_value_list demo_schema (sr_provider demo_result) STATS_TARGET_VM))"
    by (simp add: demo_result_def demo_schema_def demo_value_plain_def demo_value_ns_def
          demo_value_bytes_def)
  note t = stats_renderer_subsequence [OF sub demo_run]
  have l: "find_schema_value_list demo_schema (sr_provider demo_result) STATS_TARGET_VM =
      [demo_value_plain, demo_value_ns, demo_value_bytes]"
    by (simp add: demo_result_def demo_schema_def)
  have a: "snd (snd (print_stats_results demo_env STATS_TARGET_VM True demo_result demo_schema
      mon0)) = Rendered_all"
    by (simp add: demo_run)
  have b: "map (cursor_index
        (find_schema_value_list demo_schema (sr_provider demo_result) STATS_TARGET_VM))
     (fst (snd (print_stats_results demo_env STATS_TARGET_VM True demo_result demo_schema mon0))) =
     [0, 2]"
    by (simp add: demo_run l cursor_index_def)
  have c: "monitor_text
     (fst (print_stats_results demo_env STATS_TARGET_VM True demo_result demo_schema mon0)) =
     ''provider: kvm'' @ nl @ ''    exits (cumulative): 12345'' @ nl @
     ''    size (cumulative, B): [1]=1 [2]=2 '' @ nl"
    by (simp add: demo_run monitor_text_def)
  show ?thesis
    using t sub a b c by blast
qed

subsection \<open>Errors of the management API\<close>

lemma handle_error_some: "hmp_handle_error mon (Some err) = (True, relayed err mon)"
  by (simp add: hmp_handle_error_def error_reportf_err_def error_free_def monitor_printf_def
        relayed_def)

lemma handle_error_none: "hmp_handle_error mon None = (False, mon)"
  by (simp add: hmp_handle_error_def)

lemma info_stats_schema_error:
  assumes "StatsTarget_parse m target_str = Inr target_arg"
    and "(case provider_str of None \<Rightarrow> Inr (STATS_PROVIDER__MAX e)
          | Some ps \<Rightarrow> StatsProvider_parse m ps) = Inr provider"
    and "qmp_query_stats_schemas m (provider_str \<noteq> None) provider = Inl err"
  shows "hmp_info_stats e m target_str provider_str names_arg mon =
     (Returned, mon\<lparr>out := out mon @ [error_get_pretty err @ nl], freed := freed mon @ [err]\<rparr>)"
  using assms by (simp add: hmp_info_stats_def info_stats_exit_some)

lemma info_tpm_error:
  "CONFIG_TPM m \<Longrightarrow> qmp_query_tpm m = Inl err \<Longrightarrow>
   hmp_info_tpm e m mon =
     mon\<lparr>out := out mon @ [''TPM device not supported'' @ nl], freed := freed mon @ [err]\<rparr>"
  by (simp add: hmp_info_tpm_def error_free_def monitor_printf_def)

lemma template_a:
  "(qmp_x_exit_preconfig m = Some err \<longrightarrow> hmp_exit_preconfig m mon = relayed err mon) \<and>
   (qmp_cont m = Some err \<longrightarrow> hmp_cont m mon = relayed err mon) \<and>
   (qmp_getfd m fdname = Some err \<longrightarrow> hmp_getfd m fdname mon = relayed err mon) \<and>
   (qmp_closefd m fdname = Some err \<longrightarrow> hmp_closefd m fdname mon = relayed err mon) \<and>
   (CONFIG_VNC m \<and> device = ''vnc'' \<and>
    hmp_change_vnc m device target_arg arg read_only force = Some err \<longrightarrow>
      hmp_change m device target_arg arg read_only force mon = relayed err mon) \<and>
   (\<not> (CONFIG_VNC m \<and> device = ''vnc'') \<and>
    hmp_change_medium m device target_arg arg read_only force = Some err \<longrightarrow>
      hmp_change m device target_arg arg read_only force mon = relayed err mon)"
  by (auto simp add: hmp_exit_preconfig_def hmp_cont_def hmp_getfd_def hmp_closefd_def
        hmp_change_def handle_error_some Let_def)

lemma virtio_shims:
  "(qmp_x_query_virtio m = Inl err \<longrightarrow> hmp_virtio_query m mon = relayed err mon) \<and>
   (qmp_x_query_virtio_status m path = Inl err \<longrightarrow>
      hmp_virtio_status m path mon = relayed err mon) \<and>
   (qmp_x_query_virtio_vhost_queue_status m path (int32_of queue_arg) = Inl err \<longrightarrow>
      hmp_vhost_queue_status m path queue_arg mon = relayed err mon) \<and>
   (qmp_x_query_virtio_queue_status m path (int32_of queue_arg) = Inl err \<longrightarrow>
      hmp_virtio_queue_status m path queue_arg mon = relayed err mon) \<and>
   (qmp_x_query_virtio_queue_element m path (int32_of queue_arg)
      (int32_of (case index_arg of None \<Rightarrow> - 1 | Some i \<Rightarrow> i) \<noteq> - 1)
      (int32_of (case index_arg of None \<Rightarrow> - 1 | Some i \<Rightarrow> i)) = Inl err \<longrightarrow>
      hmp_virtio_queue_element m path queue_arg index_arg mon = relayed err mon)"
  by (simp add: hmp_virtio_query_def hmp_virtio_status_def hmp_vhost_queue_status_def
        hmp_virtio_queue_status_def hmp_virtio_queue_element_def handle_error_some Let_def)

text \<open>
  C3 (as stated): every shim routes every error descriptor of the entry points it calls
  through the error relay, the info stats shim in particular for the schema query and the
  stats query. The info stats shim does not: with a schema query that fails it writes the
  pretty description alone, without the prefix \<open>"Error: "\<close>, so its monitor differs from
  the one the relay leaves.
\<close>

theorem info_stats_relay_counterexample:
  "qmp_query_stats_schemas demo_mapi False (STATS_PROVIDER__MAX demo_env) =
     Inl (Error ''no schemas'') \<and>
   out (snd (hmp_info_stats demo_env demo_mapi ''vm'' None None mon0)) = [''no schemas'' @ nl] \<and>
   out (snd (hmp_handle_error mon0 (Some (Error ''no schemas'')))) =
     [''Error: no schemas'' @ nl] \<and>
   snd (hmp_info_stats demo_env demo_mapi ''vm'' None None mon0) \<noteq>
     snd (hmp_handle_error mon0 (Some (Error ''no schemas'')))"
proof -
  have a: "out (snd (hmp_info_stats demo_env demo_mapi ''vm'' None None mon0)) =
      [''no schemas'' @ nl]"
    by (simp add: hmp_info_stats_def demo_mapi_def info_stats_exit_some mon0_def)
  have b: "out (snd (hmp_handle_error mon0 (Some (Error ''no schemas'')))) =
     [''Error: no schemas'' @ nl]"
    by (simp add: handle_error_some relayed_def mon0_def)
  have c: "qmp_query_stats_schemas demo_mapi False (STATS_PROVIDER__MAX demo_env) =
     Inl (Error ''no schemas'')"
    by (simp add: demo_mapi_def)
  from a b have "out (snd (hmp_info_stats demo_env demo_mapi ''vm'' None None mon0)) \<noteq>
      out (snd (hmp_handle_error mon0 (Some (Error ''no schemas''))))"
    by simp
  then have "snd (hmp_info_stats demo_env demo_mapi ''vm'' None None mon0) \<noteq>
     snd (hmp_handle_error mon0 (Some (Error ''no schemas'')))"
    by auto
  with a b c show ?thesis by simp
qed

text \<open>
  C3 (amended): the relay, given a descriptor, emits exactly one line, \<open>"Error: "\<close> and
  the pretty description, frees the descriptor and returns true; given none it does
  nothing and returns false. The shims exit-preconfig, cont, getfd, closefd, change, info
  virtio, virtio status, vhost queue-status, virtio queue-status and virtio queue-element
  route every error descriptor of the entry point they call through the relay; the queue
  shims call their entry point with the queue number and the element index as stored in
  a C \<^verbatim>\<open>int\<close>, the index counting as given unless that \<^verbatim>\<open>int\<close> is -1. The info stats
  shim does not use the relay: for an error of the schema query or of the stats query it
  emits one line, the pretty description without a prefix, and frees the descriptor. The
  info tpm shim emits \<open>"TPM device not supported"\<close> and frees the descriptor.
\<close>

theorem mapi_errors_routed:
  "hmp_handle_error mon (Some err) = (True, relayed err mon) \<and>
   hmp_handle_error mon None = (False, mon) \<and>
   (qmp_x_exit_preconfig m = Some err \<longrightarrow> hmp_exit_preconfig m mon = relayed err mon) \<and>
   (qmp_cont m = Some err \<longrightarrow> hmp_cont m mon = relayed err mon) \<and>
   (qmp_getfd m fdname = Some err \<longrightarrow> hmp_getfd m fdname mon = relayed err mon) \<and>
   (qmp_closefd m fdname = Some err \<longrightarrow> hmp_closefd m fdname mon = relayed err mon) \<and>
   (CONFIG_VNC m \<and> device = ''vnc'' \<and>
    hmp_change_vnc m device target_arg arg read_only force = Some err \<longrightarrow>
      hmp_change m device target_arg arg read_only force mon = relayed err mon) \<and>
   (\<not> (CONFIG_VNC m \<and> device = ''vnc'') \<and>
    hmp_change_medium m device target_arg arg read_only force = Some err \<longrightarrow>
      hmp_change m device target_arg arg read_only force mon = relayed err mon) \<and>
   (qmp_x_query_virtio m = Inl err \<longrightarrow> hmp_virtio_query m mon = relayed err mon) \<and>
   (qmp_x_query_virtio_status m path = Inl err \<longrightarrow>
      hmp_virtio_status m path mon = relayed err mon) \<and>
   (qmp_x_query_virtio_vhost_queue_status m path (int32_of queue_arg) = Inl err \<longrightarrow>
      hmp_vhost_queue_status m path queue_arg mon = relayed err mon) \<and>
   (qmp_x_query_virtio_queue_status m path (int32_of queue_arg) = Inl err \<longrightarrow>
      hmp_virtio_queue_status m path queue_arg mon = relayed err mon) \<and>
   (qmp_x_query_virtio_queue_element m path (int32_of queue_arg)
      (int32_of (case index_arg of None \<Rightarrow> - 1 | Some i \<Rightarrow> i) \<noteq> - 1)
      (int32_of (case index_arg of None \<Rightarrow> - 1 | Some i \<Rightarrow> i)) = Inl err \<longrightarrow>
      hmp_virtio_queue_element m path queue_arg index_arg mon = relayed err mon) \<and>
   (StatsTarget_parse m target_str = Inr stats_target \<and>
    (case provider_str of None \<Rightarrow> Inr (STATS_PROVIDER__MAX e)
     | Some ps \<Rightarrow> StatsProvider_parse m ps) = Inr provider \<and>
    qmp_query_stats_schemas m (provider_str \<noteq> None) provider = Inl err \<longrightarrow>
      hmp_info_stats e m target_str provider_str names_arg mon =
        (Returned,
         mon\<lparr>out := out mon @ [error_get_pretty err @ nl], freed := freed mon @ [err]\<rparr>)) \<and>
   (StatsTarget_parse m target_str = Inr stats_target \<and>
    (case provider_str of None \<Rightarrow> Inr (STATS_PROVIDER__MAX e)
     | Some ps \<Rightarrow> StatsProvider_parse m ps) = Inr provider \<and>
    qmp_query_stats_schemas m (provider_str \<noteq> None) provider = Inr schema \<and>
    (stats_target = STATS_TARGET_VM \<or> stats_target = STATS_TARGET_VCPU) \<and>
    stats_filter e stats_target names_arg
      (if stats_target = STATS_TARGET_VM then - 1 else mon_cpu_index mon) provider =
      Returns filter_arg \<and>
    qmp_query_stats m filter_arg = Inl err \<longrightarrow>
      hmp_info_stats e m target_str provider_str names_arg mon =
        (Returned,
         mon\<lparr>out := out mon @ [error_get_pretty err @ nl], freed := freed mon @ [err]\<rparr>)) \<and>
   (CONFIG_TPM m \<and> qmp_query_tpm m = Inl err \<longrightarrow>
      hmp_info_tpm e m mon =
        mon\<lparr>out := out mon @ [''TPM device not supported'' @ nl], freed := freed mon @ [err]\<rparr>)"
proof -
  note a = template_a [where m = m and err = err and mon = mon and fdname = fdname and
      device = device and target_arg = target_arg and arg = arg and read_only = read_only and
      force = force]
  note b = virtio_shims [where m = m and err = err and mon = mon and path = path and
      queue_arg = queue_arg and index_arg = index_arg]
  have c: "StatsTarget_parse m target_str = Inr stats_target \<and>
    (case provider_str of None \<Rightarrow> Inr (STATS_PROVIDER__MAX e)
     | Some ps \<Rightarrow> StatsProvider_parse m ps) = Inr provider \<and>
    qmp_query_stats_schemas m (provider_str \<noteq> None) provider = Inl err \<longrightarrow>
      hmp_info_stats e m target_str provider_str names_arg mon =
        (Returned,
         mon\<lparr>out := out mon @ [error_get_pretty err @ nl], freed := freed mon @ [err]\<rparr>)"
    using info_stats_schema_error [where m = m and target_str = target_str and
        target_arg = stats_target and provider_str = provider_str and e = e and
        provider = provider and err = err and names_arg = names_arg and mon = mon]
    by blast
  have d: "StatsTarget_parse m target_str = Inr stats_target \<and>
    (case provider_str of None \<Rightarrow> Inr (STATS_PROVIDER__MAX e)
     | Some ps \<Rightarrow> StatsProvider_parse m ps) = Inr provider \<and>
    qmp_query_stats_schemas m (provider_str \<noteq> None) provider = Inr schema \<and>
    (stats_target = STATS_TARGET_VM \<or> stats_target = STATS_TARGET_VCPU) \<and>
    stats_filter e stats_target names_arg
      (if stats_target = STATS_TARGET_VM then - 1 else mon_cpu_index mon) provider =
      Returns filter_arg \<and>
    qmp_query_stats m filter_arg = Inl err \<longrightarrow>
      hmp_info_stats e m target_str provider_str names_arg mon =
        (Returned,
         mon\<lparr>out := out mon @ [error_get_pretty err @ nl], freed := freed mon @ [err]\<rparr>)"
    using info_stats_query_error [where m = m and target_str = target_str and
        target_arg = stats_target and provider_str = provider_str and e = e and
        provider = provider and schema = schema and err = err and names_arg = names_arg and
        mon = mon and filter_arg = filter_arg]
    by blast
  have f: "CONFIG_TPM m \<and> qmp_query_tpm m = Inl err \<longrightarrow>
      hmp_info_tpm e m mon =
        mon\<lparr>out := out mon @ [''TPM device not supported'' @ nl], freed := freed mon @ [err]\<rparr>"
    using info_tpm_error [where m = m and err = err and e = e and mon = mon] by blast
  show ?thesis
    using a b c d f handle_error_some [where mon = mon and err = err]
      handle_error_none [where mon = mon]
    by blast
qed


theorem mapi_errors_routed_witness:
  "hmp_cont demo_mapi mon0 =
     \<lparr>out = [''Error: cannot resume'' @ nl], freed = [Error ''cannot resume''],
      mon_cpu_index = 0\<rparr> \<and>
   hmp_virtio_status demo_mapi (Some ''/machine/peripheral/vio'') mon0 =
     \<lparr>out = [''Error: no such device'' @ nl], freed = [Error ''no such device''],
      mon_cpu_index = 0\<rparr> \<and>
   hmp_virtio_queue_element demo_mapi (Some ''/machine/peripheral/vio'') 0 (Some 1) mon0 =
     \<lparr>out = [''Error: no element'' @ nl], freed = [Error ''no element''],
      mon_cpu_index = 0\<rparr> \<and>
   hmp_virtio_queue_element demo_mapi (Some ''/machine/peripheral/vio'') 0 (Some 4294967295)
       mon0 =
     \<lparr>out = [''Error: queue is empty'' @ nl], freed = [Error ''queue is empty''],
      mon_cpu_index = 0\<rparr> \<and>
   hmp_info_stats demo_env demo_mapi ''vm'' None None mon0 =
     (Returned,
      \<lparr>out = [''no schemas'' @ nl], freed = [Error ''no schemas''], mon_cpu_index = 0\<rparr>) \<and>
   hmp_info_stats demo_env demo_mapi ''vm'' (Some ''kvm'') (Some ''exits'') mon0 =
     (Returned,
      \<lparr>out = [''no stats'' @ nl], freed = [Error ''no stats''], mon_cpu_index = 0\<rparr>) \<and>
   hmp_info_tpm demo_env demo_mapi mon0 =
     \<lparr>out = [''TPM device not supported'' @ nl], freed = [Error ''no tpm''],
      mon_cpu_index = 0\<rparr>"
proof -
  have n: "int32_of 0 = 0" "int32_of 1 = 1" "int32_of 4294967295 = - 1"
    by (simp_all add: int32_of_def)
  have a: "hmp_cont demo_mapi mon0 =
     \<lparr>out = [''Error: cannot resume'' @ nl], freed = [Error ''cannot resume''],
      mon_cpu_index = 0\<rparr>"
    using mapi_errors_routed [where m = demo_mapi and err = "Error ''cannot resume''" and
        mon = mon0, THEN conjunct2, THEN conjunct2, THEN conjunct2, THEN conjunct1]
    by (simp add: demo_mapi_def relayed_def mon0_def)
  have b: "hmp_virtio_status demo_mapi (Some ''/machine/peripheral/vio'') mon0 =
     \<lparr>out = [''Error: no such device'' @ nl], freed = [Error ''no such device''],
      mon_cpu_index = 0\<rparr>"
    using mapi_errors_routed [where m = demo_mapi and err = "Error ''no such device''" and
        mon = mon0 and path = "Some ''/machine/peripheral/vio''",
        THEN conjunct2, THEN conjunct2, THEN conjunct2, THEN conjunct2, THEN conjunct2,
        THEN conjunct2, THEN conjunct2, THEN conjunct2, THEN conjunct2, THEN conjunct1]
    by (simp add: demo_mapi_def relayed_def mon0_def)
  have q1: "hmp_virtio_queue_element demo_mapi (Some ''/machine/peripheral/vio'') 0 (Some 1)
      mon0 =
     \<lparr>out = [''Error: no element'' @ nl], freed = [Error ''no element''],
      mon_cpu_index = 0\<rparr>"
    using mapi_errors_routed [where m = demo_mapi and err = "Error ''no element''" and
        mon = mon0 and path = "Some ''/machine/peripheral/vio''" and queue_arg = 0 and
        index_arg = "Some 1",
        THEN conjunct2, THEN conjunct2, THEN conjunct2, THEN conjunct2, THEN conjunct2,
        THEN conjunct2, THEN conjunct2, THEN conjunct2, THEN conjunct2, THEN conjunct2,
        THEN conjunct2, THEN conjunct2, THEN conjunct1]
    by (simp add: demo_mapi_def relayed_def mon0_def n)
  have q2: "hmp_virtio_queue_element demo_mapi (Some ''/machine/peripheral/vio'') 0
      (Some 4294967295) mon0 =
     \<lparr>out = [''Error: queue is empty'' @ nl], freed = [Error ''queue is empty''],
      mon_cpu_index = 0\<rparr>"
    using mapi_errors_routed [where m = demo_mapi and err = "Error ''queue is empty''" and
        mon = mon0 and path = "Some ''/machine/peripheral/vio''" and queue_arg = 0 and
        index_arg = "Some 4294967295",
        THEN conjunct2, THEN conjunct2, THEN conjunct2, THEN conjunct2, THEN conjunct2,
        THEN conjunct2, THEN conjunct2, THEN conjunct2, THEN conjunct2, THEN conjunct2,
        THEN conjunct2, THEN conjunct2, THEN conjunct1]
    by (simp add: demo_mapi_def relayed_def mon0_def n)
  have c: "hmp_info_stats demo_env demo_mapi ''vm'' None None mon0 =
     (Returned,
      \<lparr>out = [''no schemas'' @ nl], freed = [Error ''no schemas''], mon_cpu_index = 0\<rparr>)"
    using mapi_errors_routed [where m = demo_mapi and err = "Error ''no schemas''" and
        mon = mon0 and e = demo_env and target_str = "''vm''" and
        stats_target = STATS_TARGET_VM and provider_str = None and
        provider = "STATS_PROVIDER__MAX demo_env" and names_arg = None,
        THEN conjunct2, THEN conjunct2, THEN conjunct2, THEN conjunct2, THEN conjunct2,
        THEN conjunct2, THEN conjunct2, THEN conjunct2, THEN conjunct2, THEN conjunct2,
        THEN conjunct2, THEN conjunct2, THEN conjunct2, THEN conjunct1]
    by (simp add: demo_mapi_def mon0_def)
  have mx: "STATS_PROVIDER__MAX demo_env = Suc (Suc 0)"
    by (simp add: demo_env_def)
  have s: "hmp_split_at_comma (Some ''exits'') = [''exits'']"
    by (simp add: hmp_split_at_comma_def g_strsplit_comma_def)
  have sf: "stats_filter demo_env STATS_TARGET_VM (Some ''exits'') (- 1) 0 =
     Returns \<lparr>target = STATS_TARGET_VM, has_vcpus = False, vcpus = [], has_providers = True,
       providers = [\<lparr>rq_provider = 0, has_names = True, names = [''exits'']\<rparr>]\<rparr>"
    by (simp add: stats_filter_def stats_request_def Let_def mx s)
  have d: "hmp_info_stats demo_env demo_mapi ''vm'' (Some ''kvm'') (Some ''exits'') mon0 =
     (Returned,
      \<lparr>out = [''no stats'' @ nl], freed = [Error ''no stats''], mon_cpu_index = 0\<rparr>)"
    using mapi_errors_routed [where m = demo_mapi and err = "Error ''no stats''" and
        mon = mon0 and e = demo_env and target_str = "''vm''" and
        stats_target = STATS_TARGET_VM and provider_str = "Some ''kvm''" and
        provider = 0 and names_arg = "Some ''exits''" and schema = demo_schema and
        filter_arg = "\<lparr>target = STATS_TARGET_VM, has_vcpus = False, vcpus = [],
          has_providers = True,
          providers = [\<lparr>rq_provider = 0, has_names = True, names = [''exits'']\<rparr>]\<rparr>",
        THEN conjunct2, THEN conjunct2, THEN conjunct2, THEN conjunct2, THEN conjunct2,
        THEN conjunct2, THEN conjunct2, THEN conjunct2, THEN conjunct2, THEN conjunct2,
        THEN conjunct2, THEN conjunct2, THEN conjunct2, THEN conjunct2, THEN conjunct1] sf
    by (simp add: demo_mapi_def mon0_def)
  have f: "hmp_info_tpm demo_env demo_mapi mon0 =
     \<lparr>out = [''TPM device not supported'' @ nl], freed = [Error ''no tpm''],
      mon_cpu_index = 0\<rparr>"
    using mapi_errors_routed [where m = demo_mapi and err = "Error ''no tpm''" and
        mon = mon0 and e = demo_env,
        THEN conjunct2, THEN conjunct2, THEN conjunct2, THEN conjunct2, THEN conjunct2,
        THEN conjunct2, THEN conjunct2, THEN conjunct2, THEN conjunct2, THEN conjunct2,
        THEN conjunct2, THEN conjunct2, THEN conjunct2, THEN conjunct2, THEN conjunct2]
    by (simp add: demo_mapi_def mon0_def)
  show ?thesis
    by (intro conjI) (rule a b q1 q2 c d f)+
qed

end
